theory Spec2Isabelle
  imports Complex_Main
begin

section \<open>Python values\<close>

text \<open>
  The ingestion code of the shaft analyzer works on untyped cell values: a row is a
  \<^verbatim>\<open>dict\<close> from column names to whatever pandas read from the sheet (strings, numbers,
  NaN for an empty cell, None). The embedding keeps these values as one datatype.

  A Python \<^verbatim>\<open>str\<close> is a list of characters; a \<^typ>\<open>char\<close> stands for a code point
  below 256. A Python \<^verbatim>\<open>float\<close> is a finite value, one of the two infinities, or NaN.
  The finite values are read as the real numbers they denote: rounding to 53 bits is not
  part of the model, the special values and the order on them are.
\<close>

datatype pyfloat = Fin real | PosInf | NegInf | NaN

datatype pyval = PNone | PBool bool | PInt int | PFloat pyfloat | PStr string

text \<open>Exceptions are values; every \<^verbatim>\<open>raise\<close> of the source is an \<open>Inl\<close>.
  pydantic's \<^verbatim>\<open>ValidationError\<close> is a subclass of \<^verbatim>\<open>ValueError\<close>; it carries the names
  of the fields that failed.\<close>

datatype error =
    ValueError string
  | ValidationError "string list"
  | KeyError string
  | TypeError
  | AttributeError
  | OverflowError

definition bind_err :: "error + 'a \<Rightarrow> ('a \<Rightarrow> error + 'b) \<Rightarrow> error + 'b" where
  "bind_err m f = (case m of Inl e \<Rightarrow> Inl e | Inr x \<Rightarrow> f x)"

subsection \<open>Floats\<close>

text \<open>The comparisons of IEEE 754: every comparison with NaN is false.\<close>

fun float_lt :: "pyfloat \<Rightarrow> pyfloat \<Rightarrow> bool" where
  "float_lt NaN _ = False"
| "float_lt _ NaN = False"
| "float_lt (Fin a) (Fin b) = (a < b)"
| "float_lt (Fin _) PosInf = True"
| "float_lt (Fin _) NegInf = False"
| "float_lt NegInf NegInf = False"
| "float_lt NegInf _ = True"
| "float_lt PosInf _ = False"

definition float_le :: "pyfloat \<Rightarrow> pyfloat \<Rightarrow> bool" where
  "float_le a b = (float_lt a b \<or> (a = b \<and> a \<noteq> NaN))"

definition is_finite :: "pyfloat \<Rightarrow> bool" where
  "is_finite f = (case f of Fin _ \<Rightarrow> True | _ \<Rightarrow> False)"

subsection \<open>Truthiness, \<^verbatim>\<open>or\<close>, \<^verbatim>\<open>pd.isna\<close>\<close>

text \<open>\<^verbatim>\<open>bool(v)\<close>: None, False, 0, 0.0 and the empty string are falsy; NaN is truthy.\<close>

fun truthy :: "pyval \<Rightarrow> bool" where
  "truthy PNone = False"
| "truthy (PBool b) = b"
| "truthy (PInt n) = (n \<noteq> 0)"
| "truthy (PFloat f) = (f \<noteq> Fin 0)"
| "truthy (PStr s) = (s \<noteq> [])"

text \<open>\<^verbatim>\<open>a or b or c\<close> evaluates its operands from the left and is the first truthy one;
  when none is truthy it is the last operand, whatever that is.\<close>

fun py_or :: "pyval list \<Rightarrow> pyval" where
  "py_or [] = PNone"
| "py_or [v] = v"
| "py_or (v # vs) = (if truthy v then v else py_or vs)"

fun isna :: "pyval \<Rightarrow> bool" where
  "isna PNone = True"
| "isna (PFloat f) = (f = NaN)"
| "isna _ = False"

subsection \<open>Strings\<close>

text \<open>\<^verbatim>\<open>str.strip()\<close> removes the white space of Unicode at both ends; below 256 these
  are the code points 9 to 13, 28 to 32, 133 and 160.\<close>

definition is_space :: "char \<Rightarrow> bool" where
  "is_space c = (let n = (of_char c :: nat) in
     (9 \<le> n \<and> n \<le> 13) \<or> (28 \<le> n \<and> n \<le> 32) \<or> n = 133 \<or> n = 160)"

definition strip :: "string \<Rightarrow> string" where
  "strip s = rev (dropWhile is_space (rev (dropWhile is_space s)))"

text \<open>\<^verbatim>\<open>str.lower()\<close>: the upper-case letters below 256 are A to Z and the code points
  192 to 222 except 215; the lower-case letter is 32 further, which sets one bit.\<close>

definition is_upper :: "char \<Rightarrow> bool" where
  "is_upper c = (let n = (of_char c :: nat) in
     (65 \<le> n \<and> n \<le> 90) \<or> (192 \<le> n \<and> n \<le> 222 \<and> n \<noteq> 215))"

definition char_lower :: "char \<Rightarrow> char" where
  "char_lower c = (if is_upper c
     then (case c of Char b0 b1 b2 b3 b4 b5 b6 b7 \<Rightarrow> Char b0 b1 b2 b3 b4 True b6 b7)
     else c)"

definition lower :: "string \<Rightarrow> string" where
  "lower s = map char_lower s"

text \<open>\<^verbatim>\<open>s.replace(" ", "")\<close> deletes the space character only.\<close>

definition remove_spaces :: "string \<Rightarrow> string" where
  "remove_spaces s = filter (\<lambda>c. c \<noteq> CHR '' '') s"

subsection \<open>Conversions of the runtime\<close>

text \<open>
  Two conversions between floats and text belong to the Python runtime and to pydantic,
  not to this repository, and depend on the binary representation: parsing a string as
  a float and printing a finite float. They are parameters of the model.
  \<^item> \<open>float_of_str s\<close> is \<^verbatim>\<open>float(s)\<close> for a string; \<open>None\<close> when it raises ValueError.
  \<^item> \<open>str_of_float r\<close> is \<^verbatim>\<open>str(x)\<close> for the finite float \<open>x\<close> of value \<open>r\<close>.
  \<^item> \<open>lax_float v\<close> is what pydantic's float field makes of an input that is neither a
    float, an int nor None (a numeric string, a bool); \<open>None\<close> when it rejects it.
\<close>

record py_runtime =
  float_of_str :: "string \<Rightarrow> pyfloat option"
  str_of_float :: "real \<Rightarrow> string"
  lax_float :: "pyval \<Rightarrow> pyfloat option"

definition digit_char :: "nat \<Rightarrow> char" where
  "digit_char d = ''0123456789'' ! d"

fun str_of_nat :: "nat \<Rightarrow> string" where
  "str_of_nat n = (if n < 10 then [digit_char n]
                   else str_of_nat (n div 10) @ [digit_char (n mod 10)])"

declare str_of_nat.simps [simp del]

definition str_of_int :: "int \<Rightarrow> string" where
  "str_of_int n = (if n < 0 then ''-'' @ str_of_nat (nat (- n)) else str_of_nat (nat n))"

text \<open>\<^verbatim>\<open>str(v)\<close>.\<close>

fun py_str :: "py_runtime \<Rightarrow> pyval \<Rightarrow> string" where
  "py_str rt PNone = ''None''"
| "py_str rt (PBool b) = (if b then ''True'' else ''False'')"
| "py_str rt (PInt n) = str_of_int n"
| "py_str rt (PFloat (Fin r)) = str_of_float rt r"
| "py_str rt (PFloat PosInf) = ''inf''"
| "py_str rt (PFloat NegInf) = ''-inf''"
| "py_str rt (PFloat NaN) = ''nan''"
| "py_str rt (PStr s) = s"

text \<open>
  \<^verbatim>\<open>float(v)\<close>. An int converts when it rounds to a finite double, that is when its
  magnitude is below \<open>2^1024 - 2^970\<close>; a larger one raises OverflowError. None raises
  TypeError, a string that does not parse raises ValueError.
\<close>

definition int_fits_float :: "int \<Rightarrow> bool" where
  "int_fits_float n = (\<bar>n\<bar> < 2 ^ 1024 - 2 ^ 970)"

fun py_float :: "py_runtime \<Rightarrow> pyval \<Rightarrow> error + pyfloat" where
  "py_float rt PNone = Inl TypeError"
| "py_float rt (PBool b) = Inr (Fin (if b then 1 else 0))"
| "py_float rt (PInt n) = (if int_fits_float n then Inr (Fin (of_int n)) else Inl OverflowError)"
| "py_float rt (PFloat f) = Inr f"
| "py_float rt (PStr s) =
     (case float_of_str rt s of
        None \<Rightarrow> Inl (ValueError ''could not convert string to float'')
      | Some f \<Rightarrow> Inr f)"

section \<open>The schema (schemas.py)\<close>

datatype ClubType = WOODS | FAIRWAY | HYBRID | IRON | WEDGE | PUTTER

datatype Flex = LADIES | SENIOR | REGULAR | STIFF | X_STIFF | TX

datatype LaunchProfile = LAUNCH_LOW | LAUNCH_LOW_MID | LAUNCH_MID | LAUNCH_MID_HIGH | LAUNCH_HIGH

datatype SpinProfile = SPIN_LOW | SPIN_LOW_MID | SPIN_MID | SPIN_MID_HIGH | SPIN_HIGH

datatype TipStiffness = SOFT | MEDIUM | FIRM | VERY_FIRM

datatype Kickpoint = KICK_LOW | KICK_LOW_MID | KICK_MID | KICK_MID_HIGH | KICK_HIGH

text \<open>The members are string enums: each has the value the class body gives it.\<close>

fun ClubType_value :: "ClubType \<Rightarrow> string" where
  "ClubType_value WOODS = ''woods''"
| "ClubType_value FAIRWAY = ''fairway''"
| "ClubType_value HYBRID = ''hybrid''"
| "ClubType_value IRON = ''iron''"
| "ClubType_value WEDGE = ''wedge''"
| "ClubType_value PUTTER = ''putter''"

fun Flex_value :: "Flex \<Rightarrow> string" where
  "Flex_value LADIES = ''Ladies''"
| "Flex_value SENIOR = ''Senior''"
| "Flex_value REGULAR = ''Regular''"
| "Flex_value STIFF = ''Stiff''"
| "Flex_value X_STIFF = ''X-Stiff''"
| "Flex_value TX = ''TX''"

fun LaunchProfile_value :: "LaunchProfile \<Rightarrow> string" where
  "LaunchProfile_value LAUNCH_LOW = ''Low''"
| "LaunchProfile_value LAUNCH_LOW_MID = ''Low-Mid''"
| "LaunchProfile_value LAUNCH_MID = ''Mid''"
| "LaunchProfile_value LAUNCH_MID_HIGH = ''Mid-High''"
| "LaunchProfile_value LAUNCH_HIGH = ''High''"

fun SpinProfile_value :: "SpinProfile \<Rightarrow> string" where
  "SpinProfile_value SPIN_LOW = ''Low''"
| "SpinProfile_value SPIN_LOW_MID = ''Low-Mid''"
| "SpinProfile_value SPIN_MID = ''Mid''"
| "SpinProfile_value SPIN_MID_HIGH = ''Mid-High''"
| "SpinProfile_value SPIN_HIGH = ''High''"

fun TipStiffness_value :: "TipStiffness \<Rightarrow> string" where
  "TipStiffness_value SOFT = ''Soft''"
| "TipStiffness_value MEDIUM = ''Medium''"
| "TipStiffness_value FIRM = ''Firm''"
| "TipStiffness_value VERY_FIRM = ''Very Firm''"

fun Kickpoint_value :: "Kickpoint \<Rightarrow> string" where
  "Kickpoint_value KICK_LOW = ''Low''"
| "Kickpoint_value KICK_LOW_MID = ''Low-Mid''"
| "Kickpoint_value KICK_MID = ''Mid''"
| "Kickpoint_value KICK_MID_HIGH = ''Mid-High''"
| "Kickpoint_value KICK_HIGH = ''High''"

fun FLEX_ORDER :: "Flex \<Rightarrow> nat option" where
  "FLEX_ORDER LADIES = Some 0"
| "FLEX_ORDER SENIOR = Some 1"
| "FLEX_ORDER REGULAR = Some 2"
| "FLEX_ORDER STIFF = Some 3"
| "FLEX_ORDER X_STIFF = Some 4"
| "FLEX_ORDER TX = Some 5"

record ShaftSpec =
  manufacturer :: string
  model :: string
  generation :: "string option"
  club_type :: ClubType
  flex :: Flex
  weight_grams :: pyfloat
  length_inches :: "pyfloat option"
  torque_degrees :: "pyfloat option"
  launch :: "LaunchProfile option"
  spin :: "SpinProfile option"
  butt_diameter_inches :: "pyfloat option"
  tip_diameter_inches :: "pyfloat option"
  tip_stiff :: "TipStiffness option"
  kickpoint :: "Kickpoint option"
  material :: string
  msrp_usd :: "pyfloat option"

definition flex_order :: "ShaftSpec \<Rightarrow> nat" where
  "flex_order s = (case FLEX_ORDER (flex s) of Some n \<Rightarrow> n | None \<Rightarrow> 3)"

text \<open>\<^verbatim>\<open>display_name\<close>: the generation part is left out when the generation is None or
  the empty string (both are falsy).\<close>

definition display_name :: "ShaftSpec \<Rightarrow> string" where
  "display_name s =
     (let gen = (case generation s of
                   None \<Rightarrow> []
                 | Some g \<Rightarrow> if g \<noteq> [] then '' '' @ g else [])
      in manufacturer s @ '' '' @ model s @ gen @ '' '' @ Flex_value (flex s))"


subsection \<open>Construction of a ShaftSpec\<close>

text \<open>
  \<^verbatim>\<open>ShaftSpec(**kwargs)\<close> validates every field and raises one ValidationError naming
  the fields that failed. A field is validated in this order: the type, the constraints
  of \<^verbatim>\<open>Field\<close> (\<^verbatim>\<open>min_length\<close>, \<^verbatim>\<open>gt\<close>, \<^verbatim>\<open>ge\<close>, \<^verbatim>\<open>lt\<close>), and then the validator
  \<^verbatim>\<open>strip_whitespace\<close> of the class, which is an "after" validator. A bound holds when
  the comparison of the float with it is true.
\<close>

definition str_type :: "pyval \<Rightarrow> string option" where
  "str_type v = (case v of PStr s \<Rightarrow> Some s | _ \<Rightarrow> None)"

definition float_type :: "py_runtime \<Rightarrow> pyval \<Rightarrow> pyfloat option" where
  "float_type rt v =
     (case v of
        PFloat f \<Rightarrow> Some f
      | PInt n \<Rightarrow> (if int_fits_float n then Some (Fin (of_int n)) else None)
      | PNone \<Rightarrow> None
      | _ \<Rightarrow> lax_float rt v)"

text \<open>A member of a string enum is a string; the field accepts the value of a member.\<close>

definition enum_type :: "('a \<Rightarrow> string) \<Rightarrow> 'a list \<Rightarrow> pyval \<Rightarrow> 'a option" where
  "enum_type val members v =
     (case v of PStr s \<Rightarrow> List.find (\<lambda>m. val m = s) members | _ \<Rightarrow> None)"

definition check :: "('a \<Rightarrow> bool) \<Rightarrow> 'a option \<Rightarrow> 'a option" where
  "check p x = (case x of Some v \<Rightarrow> if p v then Some v else None | None \<Rightarrow> None)"

text \<open>\<^verbatim>\<open>Field(...)\<close>: the argument must be given. \<^verbatim>\<open>Optional[T] = Field(None)\<close>: the
  field is None when the argument is missing or None. \<^verbatim>\<open>Field(default=d)\<close>: the field
  is \<open>d\<close> when the argument is missing. \<open>None\<close> as a result is a validation failure.\<close>

definition required :: "(pyval \<Rightarrow> 'a option) \<Rightarrow> pyval option \<Rightarrow> 'a option" where
  "required f a = (case a of None \<Rightarrow> None | Some v \<Rightarrow> f v)"

definition optional :: "(pyval \<Rightarrow> 'a option) \<Rightarrow> pyval option \<Rightarrow> 'a option option" where
  "optional f a =
     (case a of
        None \<Rightarrow> Some None
      | Some v \<Rightarrow> if v = PNone then Some None else map_option Some (f v))"

definition with_default :: "'a \<Rightarrow> (pyval \<Rightarrow> 'a option) \<Rightarrow> pyval option \<Rightarrow> 'a option" where
  "with_default d f a = (case a of None \<Rightarrow> Some d | Some v \<Rightarrow> f v)"

definition ClubType_members :: "ClubType list" where
  "ClubType_members = [WOODS, FAIRWAY, HYBRID, IRON, WEDGE, PUTTER]"

definition Flex_members :: "Flex list" where
  "Flex_members = [LADIES, SENIOR, REGULAR, STIFF, X_STIFF, TX]"

definition LaunchProfile_members :: "LaunchProfile list" where
  "LaunchProfile_members =
     [LAUNCH_LOW, LAUNCH_LOW_MID, LAUNCH_MID, LAUNCH_MID_HIGH, LAUNCH_HIGH]"

definition SpinProfile_members :: "SpinProfile list" where
  "SpinProfile_members = [SPIN_LOW, SPIN_LOW_MID, SPIN_MID, SPIN_MID_HIGH, SPIN_HIGH]"

definition TipStiffness_members :: "TipStiffness list" where
  "TipStiffness_members = [SOFT, MEDIUM, FIRM, VERY_FIRM]"

definition Kickpoint_members :: "Kickpoint list" where
  "Kickpoint_members = [KICK_LOW, KICK_LOW_MID, KICK_MID, KICK_MID_HIGH, KICK_HIGH]"

definition v_name :: "pyval option \<Rightarrow> string option" where
  "v_name a = map_option strip (required (\<lambda>v. check (\<lambda>s. 1 \<le> length s) (str_type v)) a)"

definition v_weight_grams :: "py_runtime \<Rightarrow> pyval option \<Rightarrow> pyfloat option" where
  "v_weight_grams rt a =
     required (\<lambda>v. check (\<lambda>f. float_lt (Fin 0) f \<and> float_lt f (Fin 300)) (float_type rt v)) a"

definition v_length_inches :: "py_runtime \<Rightarrow> pyval option \<Rightarrow> pyfloat option option" where
  "v_length_inches rt a =
     optional (\<lambda>v. check (\<lambda>f. float_lt (Fin 0) f \<and> float_lt f (Fin 60)) (float_type rt v)) a"

definition v_torque_degrees :: "py_runtime \<Rightarrow> pyval option \<Rightarrow> pyfloat option option" where
  "v_torque_degrees rt a =
     optional (\<lambda>v. check (\<lambda>f. float_le (Fin 0) f \<and> float_lt f (Fin 15)) (float_type rt v)) a"

definition v_msrp_usd :: "py_runtime \<Rightarrow> pyval option \<Rightarrow> pyfloat option option" where
  "v_msrp_usd rt a = optional (\<lambda>v. check (\<lambda>f. float_le (Fin 0) f) (float_type rt v)) a"

text \<open>The model is built from the validated fields when none has failed; otherwise the
  error names the fields that failed, in the order of the class.\<close>

definition ShaftSpec_build ::
  "string option \<Rightarrow> string option \<Rightarrow> string option option \<Rightarrow> ClubType option \<Rightarrow>
   Flex option \<Rightarrow> pyfloat option \<Rightarrow> pyfloat option option \<Rightarrow> pyfloat option option \<Rightarrow>
   LaunchProfile option option \<Rightarrow> SpinProfile option option \<Rightarrow> pyfloat option option \<Rightarrow>
   pyfloat option option \<Rightarrow> TipStiffness option option \<Rightarrow> Kickpoint option option \<Rightarrow>
   string option \<Rightarrow> pyfloat option option \<Rightarrow> error + ShaftSpec" where
  "ShaftSpec_build f_manufacturer f_model f_generation f_club_type f_flex f_weight_grams
     f_length_inches f_torque_degrees f_launch f_spin f_butt f_tip f_tip_stiff f_kickpoint
     f_material f_msrp_usd =
     (let failed = map fst (filter (\<lambda>(name, ok). \<not> ok)
            [(''manufacturer'', f_manufacturer \<noteq> None),
             (''model'', f_model \<noteq> None),
             (''generation'', f_generation \<noteq> None),
             (''club_type'', f_club_type \<noteq> None),
             (''flex'', f_flex \<noteq> None),
             (''weight_grams'', f_weight_grams \<noteq> None),
             (''length_inches'', f_length_inches \<noteq> None),
             (''torque_degrees'', f_torque_degrees \<noteq> None),
             (''launch'', f_launch \<noteq> None),
             (''spin'', f_spin \<noteq> None),
             (''butt_diameter_inches'', f_butt \<noteq> None),
             (''tip_diameter_inches'', f_tip \<noteq> None),
             (''tip_stiff'', f_tip_stiff \<noteq> None),
             (''kickpoint'', f_kickpoint \<noteq> None),
             (''material'', f_material \<noteq> None),
             (''msrp_usd'', f_msrp_usd \<noteq> None)])
      in if failed = []
         then Inr \<lparr> manufacturer = the f_manufacturer,
                    model = the f_model,
                    generation = the f_generation,
                    club_type = the f_club_type,
                    flex = the f_flex,
                    weight_grams = the f_weight_grams,
                    length_inches = the f_length_inches,
                    torque_degrees = the f_torque_degrees,
                    launch = the f_launch,
                    spin = the f_spin,
                    butt_diameter_inches = the f_butt,
                    tip_diameter_inches = the f_tip,
                    tip_stiff = the f_tip_stiff,
                    kickpoint = the f_kickpoint,
                    material = the f_material,
                    msrp_usd = the f_msrp_usd \<rparr>
         else Inl (ValidationError failed))"

definition ShaftSpec_init :: "py_runtime \<Rightarrow> (string \<times> pyval) list \<Rightarrow> error + ShaftSpec" where
  "ShaftSpec_init rt kwargs =
     ShaftSpec_build
       (v_name (map_of kwargs ''manufacturer''))
       (v_name (map_of kwargs ''model''))
       (optional str_type (map_of kwargs ''generation''))
       (required (enum_type ClubType_value ClubType_members) (map_of kwargs ''club_type''))
       (required (enum_type Flex_value Flex_members) (map_of kwargs ''flex''))
       (v_weight_grams rt (map_of kwargs ''weight_grams''))
       (v_length_inches rt (map_of kwargs ''length_inches''))
       (v_torque_degrees rt (map_of kwargs ''torque_degrees''))
       (optional (enum_type LaunchProfile_value LaunchProfile_members) (map_of kwargs ''launch''))
       (optional (enum_type SpinProfile_value SpinProfile_members) (map_of kwargs ''spin''))
       (optional (float_type rt) (map_of kwargs ''butt_diameter_inches''))
       (optional (float_type rt) (map_of kwargs ''tip_diameter_inches''))
       (optional (enum_type TipStiffness_value TipStiffness_members) (map_of kwargs ''tip_stiff''))
       (optional (enum_type Kickpoint_value Kickpoint_members) (map_of kwargs ''kickpoint''))
       (with_default ''graphite'' str_type (map_of kwargs ''material''))
       (v_msrp_usd rt (map_of kwargs ''msrp_usd''))"

section \<open>The normalizers (normalizer.py)\<close>

definition FLEX_MAP :: "string \<rightharpoonup> Flex" where
  "FLEX_MAP = map_of
     [(''l'', LADIES), (''ladies'', LADIES),
      (''a'', SENIOR), (''sr'', SENIOR), (''senior'', SENIOR),
      (''r'', REGULAR), (''regular'', REGULAR),
      (''s'', STIFF), (''stiff'', STIFF),
      (''x'', X_STIFF), (''xs'', X_STIFF), (''x-stiff'', X_STIFF), (''xstiff'', X_STIFF),
      (''tx'', TX), (''xxx'', TX)]"

definition LAUNCH_MAP :: "string \<rightharpoonup> LaunchProfile" where
  "LAUNCH_MAP = map_of
     [(''low'', LAUNCH_LOW), (''low-mid'', LAUNCH_LOW_MID), (''low/mid'', LAUNCH_LOW_MID),
      (''mid'', LAUNCH_MID), (''mid-high'', LAUNCH_MID_HIGH), (''mid/high'', LAUNCH_MID_HIGH),
      (''high'', LAUNCH_HIGH)]"

definition SPIN_MAP :: "string \<rightharpoonup> SpinProfile" where
  "SPIN_MAP = map_of
     [(''low'', SPIN_LOW), (''low-mid'', SPIN_LOW_MID), (''low/mid'', SPIN_LOW_MID),
      (''mid'', SPIN_MID), (''mid-high'', SPIN_MID_HIGH), (''mid/high'', SPIN_MID_HIGH),
      (''high'', SPIN_HIGH)]"

definition KICKPOINT_MAP :: "string \<rightharpoonup> Kickpoint" where
  "KICKPOINT_MAP = map_of
     [(''low'', KICK_LOW), (''low-mid'', KICK_LOW_MID), (''low/mid'', KICK_LOW_MID),
      (''mid'', KICK_MID), (''mid-high'', KICK_MID_HIGH), (''mid/high'', KICK_MID_HIGH),
      (''high'', KICK_HIGH),
      (''front'', KICK_LOW), (''front-mid'', KICK_LOW_MID), (''rear'', KICK_HIGH)]"

definition TIP_STIFF_MAP :: "string \<rightharpoonup> TipStiffness" where
  "TIP_STIFF_MAP = map_of
     [(''soft'', SOFT), (''medium'', MEDIUM), (''med'', MEDIUM), (''firm'', FIRM),
      (''very firm'', VERY_FIRM), (''extra firm'', VERY_FIRM)]"

subsection \<open>The pattern of \<^verbatim>\<open>normalize_flex\<close>\<close>

text \<open>
  \<^verbatim>\<open>re.search(r"[0-9.]+(s|r|x|tx|xs|a|l)$", cleaned)\<close> as the matcher runs it: the start
  positions from left to right; at a position the longest run of \<^verbatim>\<open>[0-9.]\<close> first, then
  the shorter ones; after the run the alternatives in their order, each followed by
  \<^verbatim>\<open>$\<close>, which holds at the end of the string and before a newline that ends it. The
  result is group 1 of the first match.
\<close>

definition digit_or_dot :: "char \<Rightarrow> bool" where
  "digit_or_dot c = (c \<in> set ''0123456789.'')"

definition flex_codes :: "string list" where
  "flex_codes = [''s'', ''r'', ''x'', ''tx'', ''xs'', ''a'', ''l'']"

definition at_end :: "string \<Rightarrow> bool" where
  "at_end s = (s = [] \<or> s = [CHR 0x0A])"

definition match_code :: "string \<Rightarrow> string option" where
  "match_code s =
     List.find (\<lambda>c. take (length c) s = c \<and> at_end (drop (length c) s)) flex_codes"

fun first_some :: "('a \<Rightarrow> 'b option) \<Rightarrow> 'a list \<Rightarrow> 'b option" where
  "first_some f [] = None"
| "first_some f (x # xs) = (case f x of Some y \<Rightarrow> Some y | None \<Rightarrow> first_some f xs)"

definition match_here :: "string \<Rightarrow> string option" where
  "match_here s =
     (let n = length (takeWhile digit_or_dot s)
      in first_some (\<lambda>k. match_code (drop k s)) (rev [1 ..< Suc n]))"

fun re_search :: "string \<Rightarrow> string option" where
  "re_search [] = match_here []"
| "re_search (c # cs) =
     (case match_here (c # cs) of Some g \<Rightarrow> Some g | None \<Rightarrow> re_search cs)"

definition clean_flex :: "string \<Rightarrow> string" where
  "clean_flex raw = remove_spaces (lower (strip raw))"

definition normalize_flex :: "string \<Rightarrow> error + Flex" where
  "normalize_flex raw =
     (let cleaned = clean_flex raw in
      case FLEX_MAP cleaned of
        Some f \<Rightarrow> Inr f
      | None \<Rightarrow>
         (case re_search cleaned of
            Some g \<Rightarrow> Inr (case FLEX_MAP g of Some f \<Rightarrow> f | None \<Rightarrow> STIFF)
          | None \<Rightarrow>
              Inl (ValueError (''Cannot normalize flex: '' @ [CHR 0x27] @ raw @ [CHR 0x27]))))"

subsection \<open>The optional profiles\<close>

text \<open>
  \<^verbatim>\<open>if not raw or pd.isna(raw): return None\<close>, then \<^verbatim>\<open>raw.strip().lower()\<close> and the
  table's \<^verbatim>\<open>get\<close>. A value that passes the test and is not a string has no method
  \<^verbatim>\<open>strip\<close>: the call raises AttributeError.
\<close>

definition normalize_profile :: "(string \<rightharpoonup> 'a) \<Rightarrow> pyval \<Rightarrow> error + 'a option" where
  "normalize_profile table raw =
     (if \<not> truthy raw \<or> isna raw then Inr None
      else case raw of
             PStr s \<Rightarrow> Inr (table (lower (strip s)))
           | _ \<Rightarrow> Inl AttributeError)"

definition normalize_launch :: "pyval \<Rightarrow> error + LaunchProfile option" where
  "normalize_launch raw = normalize_profile LAUNCH_MAP raw"

definition normalize_spin :: "pyval \<Rightarrow> error + SpinProfile option" where
  "normalize_spin raw = normalize_profile SPIN_MAP raw"

definition normalize_kickpoint :: "pyval \<Rightarrow> error + Kickpoint option" where
  "normalize_kickpoint raw = normalize_profile KICKPOINT_MAP raw"

definition normalize_tip_stiffness :: "pyval \<Rightarrow> error + TipStiffness option" where
  "normalize_tip_stiffness raw = normalize_profile TIP_STIFF_MAP raw"

subsection \<open>\<^verbatim>\<open>safe_float\<close>\<close>

definition is_float :: "pyval \<Rightarrow> bool" where
  "is_float v = (case v of PFloat _ \<Rightarrow> True | _ \<Rightarrow> False)"

text \<open>\<^verbatim>\<open>isinstance(e, ValueError)\<close>, \<^verbatim>\<open>isinstance(e, TypeError)\<close>,
  \<^verbatim>\<open>isinstance(e, KeyError)\<close>.\<close>

fun is_ValueError :: "error \<Rightarrow> bool" where
  "is_ValueError (ValueError _) = True"
| "is_ValueError (ValidationError _) = True"
| "is_ValueError _ = False"

fun is_TypeError :: "error \<Rightarrow> bool" where
  "is_TypeError TypeError = True"
| "is_TypeError _ = False"

fun is_KeyError :: "error \<Rightarrow> bool" where
  "is_KeyError (KeyError _) = True"
| "is_KeyError _ = False"

text \<open>The \<^verbatim>\<open>except (ValueError, TypeError)\<close> of \<^verbatim>\<open>safe_float\<close> turns these two into
  None; any other exception of \<^verbatim>\<open>float(val)\<close> leaves the function.\<close>

definition safe_float :: "py_runtime \<Rightarrow> pyval \<Rightarrow> error + pyfloat option" where
  "safe_float rt val =
     (if val = PNone \<or> (is_float val \<and> isna val) then Inr None
      else case py_float rt val of
             Inr f \<Rightarrow> Inr (Some f)
           | Inl e \<Rightarrow> if is_ValueError e \<or> is_TypeError e then Inr None else Inl e)"

subsection \<open>\<^verbatim>\<open>normalize_row\<close>\<close>

type_synonym row = "string \<rightharpoonup> pyval"

text \<open>\<^verbatim>\<open>row.get(key)\<close> is None for a missing key; \<^verbatim>\<open>row.get(key, d)\<close> is \<open>d\<close>.\<close>

definition row_get :: "row \<Rightarrow> string \<Rightarrow> pyval" where
  "row_get r k = (case r k of None \<Rightarrow> PNone | Some v \<Rightarrow> v)"

definition row_get_default :: "row \<Rightarrow> string \<Rightarrow> pyval \<Rightarrow> pyval" where
  "row_get_default r k d = (case r k of None \<Rightarrow> d | Some v \<Rightarrow> v)"

definition opt_float :: "pyfloat option \<Rightarrow> pyval" where
  "opt_float x = (case x of None \<Rightarrow> PNone | Some f \<Rightarrow> PFloat f)"

definition opt_enum :: "('a \<Rightarrow> string) \<Rightarrow> 'a option \<Rightarrow> pyval" where
  "opt_enum val x = (case x of None \<Rightarrow> PNone | Some m \<Rightarrow> PStr (val m))"

text \<open>
  The local variables of \<^verbatim>\<open>normalize_row\<close> that are computed without raising: the
  model name, the generation, the raw flex and the material. The parameters
  \<^verbatim>\<open>manufacturer\<close> and \<^verbatim>\<open>club_type\<close> of the source are \<open>mfr\<close> and \<open>ctype\<close> here.
\<close>

definition row_model :: "py_runtime \<Rightarrow> row \<Rightarrow> string" where
  "row_model rt r = strip (py_str rt
     (py_or [row_get r ''model'', row_get r ''shaft'', row_get r ''name'',
             row_get r ''product'', PStr ''Unknown'']))"

definition row_generation :: "py_runtime \<Rightarrow> row \<Rightarrow> pyval" where
  "row_generation rt r =
     (let generation = py_or [row_get r ''generation'', row_get r ''gen'', row_get r ''version'']
      in if truthy generation then PStr (strip (py_str rt generation)) else generation)"

definition row_flex_raw :: "py_runtime \<Rightarrow> row \<Rightarrow> string" where
  "row_flex_raw rt r = py_str rt
     (py_or [row_get r ''flex'', row_get r ''stiffness'', row_get r ''Flex'', PStr ''S''])"

definition row_material :: "py_runtime \<Rightarrow> row \<Rightarrow> string" where
  "row_material rt r =
     lower (strip (py_str rt (row_get_default r ''material'' (PStr ''graphite''))))"

definition normalize_row :: "py_runtime \<Rightarrow> row \<Rightarrow> string \<Rightarrow> ClubType \<Rightarrow> error + ShaftSpec" where
  "normalize_row rt r mfr ctype =
     bind_err (normalize_flex (row_flex_raw rt r)) (\<lambda>flex.
     bind_err (safe_float rt
        (py_or [row_get r ''weight'', row_get r ''weight_grams'', row_get r ''wt''])) (\<lambda>weight.
     case weight of
       None \<Rightarrow> Inl (ValueError (''Missing weight for '' @ row_model rt r))
     | Some w \<Rightarrow>
     bind_err (safe_float rt
        (py_or [row_get r ''length'', row_get r ''length_inches'', row_get r ''raw_length'']))
      (\<lambda>length.
     bind_err (safe_float rt
        (py_or [row_get r ''torque'', row_get r ''torque_degrees''])) (\<lambda>torque.
     bind_err (normalize_launch
        (py_or [row_get r ''launch'', row_get r ''launch_profile''])) (\<lambda>launch.
     bind_err (normalize_spin
        (py_or [row_get r ''spin'', row_get r ''spin_profile''])) (\<lambda>spin.
     bind_err (normalize_kickpoint
        (py_or [row_get r ''kickpoint'', row_get r ''kick_point'', row_get r ''bend_point'']))
      (\<lambda>kickpoint.
     bind_err (normalize_tip_stiffness
        (py_or [row_get r ''tip_stiff'', row_get r ''tip_stiffness'', row_get r ''tip'']))
      (\<lambda>tip_stiff.
     bind_err (safe_float rt
        (py_or [row_get r ''butt_diameter'', row_get r ''butt''])) (\<lambda>butt_dia.
     bind_err (safe_float rt
        (py_or [row_get r ''tip_diameter'', row_get r ''tip_dia''])) (\<lambda>tip_dia.
     bind_err (safe_float rt
        (py_or [row_get r ''msrp'', row_get r ''msrp_usd'', row_get r ''price''])) (\<lambda>msrp.
     ShaftSpec_init rt
       [(''manufacturer'', PStr mfr),
        (''model'', PStr (row_model rt r)),
        (''generation'', row_generation rt r),
        (''club_type'', PStr (ClubType_value ctype)),
        (''flex'', PStr (Flex_value flex)),
        (''weight_grams'', PFloat w),
        (''length_inches'', opt_float length),
        (''torque_degrees'', opt_float torque),
        (''launch'', opt_enum LaunchProfile_value launch),
        (''spin'', opt_enum SpinProfile_value spin),
        (''butt_diameter_inches'', opt_float butt_dia),
        (''tip_diameter_inches'', opt_float tip_dia),
        (''tip_stiff'', opt_enum TipStiffness_value tip_stiff),
        (''kickpoint'', opt_enum Kickpoint_value kickpoint),
        (''material'', PStr (row_material rt r)),
        (''msrp_usd'', opt_float msrp)])))))))))))"

subsection \<open>\<^verbatim>\<open>normalize_dataframe\<close>\<close>

text \<open>
  The frame is the list of its rows with their index labels, as \<^verbatim>\<open>df.iterrows()\<close>
  gives them. The loop appends to \<^verbatim>\<open>specs\<close> or, for an exception that the
  \<^verbatim>\<open>except (ValueError, KeyError)\<close> catches, to \<^verbatim>\<open>errors\<close> (the index and the
  exception, which the source formats into one line); any other exception leaves the
  function. The function returns \<^verbatim>\<open>specs\<close>; \<^verbatim>\<open>errors\<close> is what it prints, and the
  model returns it beside \<^verbatim>\<open>specs\<close>.
\<close>

fun normalize_loop ::
  "py_runtime \<Rightarrow> string \<Rightarrow> ClubType \<Rightarrow> (int \<times> row) list \<Rightarrow>
   ShaftSpec list \<Rightarrow> (int \<times> error) list \<Rightarrow> error + (ShaftSpec list \<times> (int \<times> error) list)" where
  "normalize_loop rt mfr ctype [] specs errors = Inr (specs, errors)"
| "normalize_loop rt mfr ctype ((idx, r) # rest) specs errors =
     (case normalize_row rt r mfr ctype of
        Inr spec \<Rightarrow> normalize_loop rt mfr ctype rest (specs @ [spec]) errors
      | Inl e \<Rightarrow>
          if is_ValueError e \<or> is_KeyError e
          then normalize_loop rt mfr ctype rest specs (errors @ [(idx, e)])
          else Inl e)"

definition normalize_dataframe ::
  "py_runtime \<Rightarrow> (int \<times> row) list \<Rightarrow> string \<Rightarrow> ClubType \<Rightarrow>
   error + (ShaftSpec list \<times> (int \<times> error) list)" where
  "normalize_dataframe rt df mfr ctype =
     normalize_loop rt mfr ctype df [] []"

section \<open>The store (load\_data.py)\<close>

text \<open>The deduplication loop of \<^verbatim>\<open>main\<close>, with its set \<^verbatim>\<open>seen\<close> and its list
  \<^verbatim>\<open>unique_specs\<close>.\<close>

fun dedup_loop :: "string set \<Rightarrow> ShaftSpec list \<Rightarrow> ShaftSpec list \<Rightarrow> ShaftSpec list" where
  "dedup_loop seen unique_specs [] = unique_specs"
| "dedup_loop seen unique_specs (spec # rest) =
     (let key = display_name spec in
      if key \<notin> seen then dedup_loop (insert key seen) (unique_specs @ [spec]) rest
      else dedup_loop seen unique_specs rest)"

definition deduplicate :: "ShaftSpec list \<Rightarrow> ShaftSpec list" where
  "deduplicate all_specs = dedup_loop {} [] all_specs"

text \<open>
  \<^verbatim>\<open>spec.model_dump(mode="json")\<close>: the fields in their order, an enum member as its
  value, a float as a JSON number, None as null. \<^verbatim>\<open>save_database\<close> writes the list of
  these objects as JSON text and \<^verbatim>\<open>load_database\<close> parses the text back; the file system
  of the model holds the parsed value, so the text encoding of \<^verbatim>\<open>json.dumps\<close> and
  \<^verbatim>\<open>json.loads\<close> is taken to lose nothing.
\<close>

definition model_dump_json :: "ShaftSpec \<Rightarrow> (string \<times> pyval) list" where
  "model_dump_json s =
     [(''manufacturer'', PStr (manufacturer s)),
      (''model'', PStr (model s)),
      (''generation'', (case generation s of None \<Rightarrow> PNone | Some g \<Rightarrow> PStr g)),
      (''club_type'', PStr (ClubType_value (club_type s))),
      (''flex'', PStr (Flex_value (flex s))),
      (''weight_grams'', PFloat (weight_grams s)),
      (''length_inches'', opt_float (length_inches s)),
      (''torque_degrees'', opt_float (torque_degrees s)),
      (''launch'', opt_enum LaunchProfile_value (launch s)),
      (''spin'', opt_enum SpinProfile_value (spin s)),
      (''butt_diameter_inches'', opt_float (butt_diameter_inches s)),
      (''tip_diameter_inches'', opt_float (tip_diameter_inches s)),
      (''tip_stiff'', opt_enum TipStiffness_value (tip_stiff s)),
      (''kickpoint'', opt_enum Kickpoint_value (kickpoint s)),
      (''material'', PStr (material s)),
      (''msrp_usd'', opt_float (msrp_usd s))]"

type_synonym filesystem = "string \<rightharpoonup> (string \<times> pyval) list list"

definition save_database :: "ShaftSpec list \<Rightarrow> string \<Rightarrow> filesystem \<Rightarrow> filesystem" where
  "save_database specs filepath fs = fs(filepath \<mapsto> map model_dump_json specs)"

fun map_err :: "('a \<Rightarrow> error + 'b) \<Rightarrow> 'a list \<Rightarrow> error + 'b list" where
  "map_err f [] = Inr []"
| "map_err f (x # xs) =
     bind_err (f x) (\<lambda>y. bind_err (map_err f xs) (\<lambda>ys. Inr (y # ys)))"

definition load_database :: "py_runtime \<Rightarrow> string \<Rightarrow> filesystem \<Rightarrow> error + ShaftSpec list" where
  "load_database rt filepath fs =
     (case fs filepath of
        None \<Rightarrow> Inr []
      | Some data \<Rightarrow> map_err (ShaftSpec_init rt) data)"

section \<open>Records of the tests (test\_schemas.py)\<close>

definition spec_hzrdus :: ShaftSpec where
  "spec_hzrdus =
     \<lparr> manufacturer = ''Project X'', model = ''HZRDUS Black'', generation = None,
       club_type = WOODS, flex = STIFF, weight_grams = Fin 62, length_inches = None,
       torque_degrees = Some (Fin 3.5), launch = Some LAUNCH_LOW, spin = None,
       butt_diameter_inches = None, tip_diameter_inches = None, tip_stiff = None,
       kickpoint = None, material = ''graphite'', msrp_usd = None \<rparr>"

definition spec_ventus :: ShaftSpec where
  "spec_ventus =
     \<lparr> manufacturer = ''Fujikura'', model = ''Ventus Blue'', generation = Some ''TR'',
       club_type = WOODS, flex = X_STIFF, weight_grams = Fin 67, length_inches = None,
       torque_degrees = None, launch = None, spin = None,
       butt_diameter_inches = None, tip_diameter_inches = None, tip_stiff = None,
       kickpoint = None, material = ''graphite'', msrp_usd = None \<rparr>"

definition spec_kbs :: ShaftSpec where
  "spec_kbs =
     \<lparr> manufacturer = ''KBS'', model = ''Tour'', generation = None,
       club_type = IRON, flex = STIFF, weight_grams = Fin 120, length_inches = None,
       torque_degrees = None, launch = None, spin = None,
       butt_diameter_inches = None, tip_diameter_inches = None, tip_stiff = None,
       kickpoint = None, material = ''graphite'', msrp_usd = None \<rparr>"

section \<open>Example frames\<close>

text \<open>A frame of four rows for the manufacturer KBS: a row with an empty weight cell, a
  row that normalizes to \<open>spec_kbs\<close>, a row with an unknown flex and a row whose weight
  is out of range. The second frame has a number in the launch column of its first row.\<close>

definition frame_kbs :: "(int \<times> row) list" where
  "frame_kbs =
     [(0, [''model'' \<mapsto> PStr ''Tour'', ''flex'' \<mapsto> PStr ''S'', ''weight'' \<mapsto> PFloat NaN]),
      (1, [''model'' \<mapsto> PStr ''Tour'', ''flex'' \<mapsto> PStr ''Stiff'',
           ''weight'' \<mapsto> PFloat (Fin 120)]),
      (2, [''model'' \<mapsto> PStr ''Tour'', ''flex'' \<mapsto> PStr ''banana'',
           ''weight'' \<mapsto> PFloat (Fin 120)]),
      (3, [''model'' \<mapsto> PStr ''Tour'', ''flex'' \<mapsto> PStr ''Stiff'',
           ''weight'' \<mapsto> PFloat (Fin 320)])]"

definition frame_numeric_launch :: "(int \<times> row) list" where
  "frame_numeric_launch =
     [(0, [''model'' \<mapsto> PStr ''Tour'', ''flex'' \<mapsto> PStr ''Stiff'',
           ''weight'' \<mapsto> PFloat (Fin 120), ''launch'' \<mapsto> PInt 5]),
      (1, [''model'' \<mapsto> PStr ''Tour'', ''flex'' \<mapsto> PStr ''Stiff'',
           ''weight'' \<mapsto> PFloat (Fin 120)])]"

section \<open>Notions of the specification\<close>

text \<open>
  A cleaned flex string "ends in a weight and a code" when one of the codes of the
  pattern stands at its end, right after a digit or a point.
\<close>

definition ends_in_weight_code :: "string \<Rightarrow> string \<Rightarrow> bool" where
  "ends_in_weight_code s g = (g \<in> set flex_codes \<and> (\<exists>p d. s = p @ d # g \<and> digit_or_dot d))"

text \<open>The record at position \<open>i\<close> of a list is a first occurrence when no record before
  it has its display name.\<close>

definition first_occurrence :: "ShaftSpec list \<Rightarrow> nat \<Rightarrow> bool" where
  "first_occurrence specs i =
     (\<forall>j<i. display_name (specs ! j) \<noteq> display_name (specs ! i))"


text \<open>A weight cell is absent or not numerically parseable when it is None, NaN (an
  empty cell of the sheet), or a string that \<^verbatim>\<open>float\<close> does not parse.\<close>

definition absent_or_unparseable :: "py_runtime \<Rightarrow> pyval \<Rightarrow> bool" where
  "absent_or_unparseable rt v =
     (v = PNone \<or> v = PFloat NaN \<or> (\<exists>s. v = PStr s \<and> float_of_str rt s = None))"

text \<open>A cell holds a numeric zero when it is the int 0 or the float 0.0.\<close>

definition numeric_zero :: "pyval \<Rightarrow> bool" where
  "numeric_zero v = (v = PInt 0 \<or> v = PFloat (Fin 0))"

text \<open>The records of the rows that normalize, and the rows that fail with their index and
  their exception, both in the order of the rows.\<close>

definition normalized_rows ::
  "py_runtime \<Rightarrow> string \<Rightarrow> ClubType \<Rightarrow> (int \<times> row) list \<Rightarrow> ShaftSpec list" where
  "normalized_rows rt mfr ctype df =
     concat (map (\<lambda>(idx, r). case normalize_row rt r mfr ctype of
                                Inr spec \<Rightarrow> [spec] | Inl e \<Rightarrow> []) df)"

definition failed_rows ::
  "py_runtime \<Rightarrow> string \<Rightarrow> ClubType \<Rightarrow> (int \<times> row) list \<Rightarrow> (int \<times> error) list" where
  "failed_rows rt mfr ctype df =
     concat (map (\<lambda>(idx, r). case normalize_row rt r mfr ctype of
                                Inr spec \<Rightarrow> [] | Inl e \<Rightarrow> [(idx, e)]) df)"

text \<open>
  A record is valid when its fields satisfy the constraints the schema declares for them:
  the names are non-empty and trimmed, the weight, the length, the torque and the price
  are in their ranges. The numbers of a valid record are finite: what the serializer
  makes of NaN and of the infinities is not part of the model.
\<close>

definition valid_spec :: "ShaftSpec \<Rightarrow> bool" where
  "valid_spec s =
     (manufacturer s \<noteq> [] \<and> strip (manufacturer s) = manufacturer s
      \<and> model s \<noteq> [] \<and> strip (model s) = model s
      \<and> float_lt (Fin 0) (weight_grams s) \<and> float_lt (weight_grams s) (Fin 300)
      \<and> (\<forall>l. length_inches s = Some l \<longrightarrow> float_lt (Fin 0) l \<and> float_lt l (Fin 60))
      \<and> (\<forall>t. torque_degrees s = Some t \<longrightarrow> float_le (Fin 0) t \<and> float_lt t (Fin 15))
      \<and> (\<forall>m. msrp_usd s = Some m \<longrightarrow> float_le (Fin 0) m \<and> is_finite m)
      \<and> (\<forall>d. butt_diameter_inches s = Some d \<longrightarrow> is_finite d)
      \<and> (\<forall>d. tip_diameter_inches s = Some d \<longrightarrow> is_finite d))"

text \<open>
  A cell is missing from a row when the row has no such column or holds None there. The
  columns \<^verbatim>\<open>normalize_row\<close> reads for the weight, and the columns it reads for each of
  the other fields: the model, the generation, the flex, the length, the torque, the
  launch, the spin, the kickpoint, the tip stiffness, the two diameters, the material and
  the price.
\<close>

definition cell_missing :: "row \<Rightarrow> string \<Rightarrow> bool" where
  "cell_missing r k = (r k = None \<or> r k = Some PNone)"

definition weight_columns :: "string list" where
  "weight_columns = [''weight'', ''weight_grams'', ''wt'']"

definition other_field_columns :: "string list list" where
  "other_field_columns =
     [[''model'', ''shaft'', ''name'', ''product''],
      [''generation'', ''gen'', ''version''],
      [''flex'', ''stiffness'', ''Flex''],
      [''length'', ''length_inches'', ''raw_length''],
      [''torque'', ''torque_degrees''],
      [''launch'', ''launch_profile''],
      [''spin'', ''spin_profile''],
      [''kickpoint'', ''kick_point'', ''bend_point''],
      [''tip_stiff'', ''tip_stiffness'', ''tip''],
      [''butt_diameter'', ''butt''],
      [''tip_diameter'', ''tip_dia''],
      [''material''],
      [''msrp'', ''msrp_usd'', ''price'']]"

text \<open>A cell is empty when it is missing or holds NaN, the value that an empty cell of a
  sheet is read as.\<close>

definition cell_empty :: "row \<Rightarrow> string \<Rightarrow> bool" where
  "cell_empty r k = (cell_missing r k \<or> r k = Some (PFloat NaN))"

section \<open>Properties\<close>

subsection \<open>Evaluation and the error monad\<close>

lemma bind_err_Inl [simp]: "bind_err (Inl e) f = Inl e"
  by (simp add: bind_err_def)

lemma bind_err_Inr [simp]: "bind_err (Inr x) f = f x"
  by (simp add: bind_err_def)

lemma bind_err_weak_cong: "m = m' \<Longrightarrow> bind_err m f = bind_err m' f"
  by simp

lemma bind_err_InrE:
  assumes "bind_err m f = Inr s"
  obtains x where "m = Inr x" and "f x = Inr s"
  using assms by (cases m) simp_all

lemma bind_err_Inr_iff: "bind_err m f = Inr s \<longleftrightarrow> (\<exists>x. m = Inr x \<and> f x = Inr s)"
  by (cases m) simp_all

lemmas fld_simps = v_name_def v_weight_grams_def v_length_inches_def
  v_torque_degrees_def v_msrp_usd_def required_def optional_def with_default_def check_def
  str_type_def float_type_def enum_type_def ClubType_members_def Flex_members_def
  LaunchProfile_members_def SpinProfile_members_def TipStiffness_members_def Kickpoint_members_def
  strip_def is_space_def float_le_def int_fits_float_def
lemmas init_simps = ShaftSpec_init_def ShaftSpec_build_def Let_def fld_simps
lemmas clean_simps = clean_flex_def remove_spaces_def lower_def strip_def is_space_def
  char_lower_def is_upper_def
lemmas flex_eval = normalize_flex_def clean_simps FLEX_MAP_def match_here_def match_code_def
  flex_codes_def digit_or_dot_def at_end_def
lemmas row_simps = normalize_row_def row_model_def row_generation_def row_flex_raw_def
  row_material_def row_get_def row_get_default_def safe_float_def is_float_def
  normalize_launch_def normalize_spin_def normalize_kickpoint_def normalize_tip_stiffness_def
  normalize_profile_def opt_float_def opt_enum_def


subsection \<open>The display name\<close>

text \<open>
  Claim C9. The display name is the manufacturer, the model, the generation and the value
  of the flex, joined by single spaces, when the record has a generation (a non-empty
  string); it is the manufacturer, the model and the value of the flex when the generation
  is absent (None, or the empty string, which \<^verbatim>\<open>display_name\<close> treats alike).
\<close>

theorem display_name_spec:
  "(\<forall>g. generation s = Some g \<and> g \<noteq> [] \<longrightarrow>
      display_name s =
        manufacturer s @ '' '' @ model s @ '' '' @ g @ '' '' @ Flex_value (flex s))
   \<and> (generation s = None \<or> generation s = Some [] \<longrightarrow>
      display_name s = manufacturer s @ '' '' @ model s @ '' '' @ Flex_value (flex s))"
proof (intro conjI allI impI)
  fix g assume "generation s = Some g \<and> g \<noteq> []"
  then show "display_name s =
      manufacturer s @ '' '' @ model s @ '' '' @ g @ '' '' @ Flex_value (flex s)"
    by (simp add: display_name_def)
next
  assume "generation s = None \<or> generation s = Some []"
  then show "display_name s = manufacturer s @ '' '' @ model s @ '' '' @ Flex_value (flex s)"
    by (auto simp: display_name_def)
qed

theorem display_name_spec_witness:
  "generation spec_ventus = Some ''TR'' \<and> ''TR'' \<noteq> []
   \<and> display_name spec_ventus = ''Fujikura Ventus Blue TR X-Stiff''
   \<and> generation spec_kbs = None
   \<and> display_name spec_kbs = ''KBS Tour Stiff''"
proof -
  have a: "generation spec_ventus = Some ''TR'' \<and> ''TR'' \<noteq> []"
    by (simp add: spec_ventus_def)
  with display_name_spec[of spec_ventus] have "display_name spec_ventus =
      manufacturer spec_ventus @ '' '' @ model spec_ventus @ '' '' @ ''TR'' @ '' '' @
      Flex_value (flex spec_ventus)"
    by blast
  then have ra: "display_name spec_ventus = ''Fujikura Ventus Blue TR X-Stiff''"
    by (simp add: spec_ventus_def)
  have b: "generation spec_kbs = None" by (simp add: spec_kbs_def)
  with display_name_spec[of spec_kbs] have "display_name spec_kbs =
      manufacturer spec_kbs @ '' '' @ model spec_kbs @ '' '' @ Flex_value (flex spec_kbs)"
    by blast
  then have rb: "display_name spec_kbs = ''KBS Tour Stiff''"
    by (simp add: spec_kbs_def)
  from a ra b rb show ?thesis by blast
qed

subsection \<open>Launch, spin and kickpoint\<close>

lemma normalize_profile_str:
  "normalize_profile table (PStr s) = Inr (if s = [] then None else table (lower (strip s)))"
  by (simp add: normalize_profile_def)

lemma strip_Nil: "strip [] = []" by (simp add: strip_def)



text \<open>
  A cell that is not a string: NaN and the falsy values give None, and any other value has
  no \<^verbatim>\<open>strip\<close> method, so that \<^verbatim>\<open>raw.strip()\<close> raises AttributeError.
\<close>

lemma normalize_profile_not_str:
  assumes "\<forall>s. v \<noteq> PStr s"
  shows "normalize_profile table v =
     (if \<not> truthy v \<or> isna v then Inr None else Inl AttributeError)"
  using assms by (cases v) (simp_all add: normalize_profile_def)

lemma profile_number_raises:
  "normalize_launch (PInt 5) = Inl AttributeError"
  "normalize_spin (PInt 5) = Inl AttributeError"
  "normalize_kickpoint (PInt 5) = Inl AttributeError"
  by (simp_all add: normalize_launch_def normalize_spin_def normalize_kickpoint_def
      normalize_profile_def)



subsection \<open>The flex\<close>

lemma first_some_None: "(\<And>x. x \<in> set xs \<Longrightarrow> f x = None) \<Longrightarrow> first_some f xs = None"
  by (induction xs) auto

lemma first_some_only:
  "a \<in> set xs \<Longrightarrow> (\<And>x. x \<in> set xs \<Longrightarrow> x \<noteq> a \<Longrightarrow> f x = None) \<Longrightarrow> first_some f xs = f a"
proof (induction xs)
  case Nil
  then show ?case by simp
next
  case (Cons x xs)
  show ?case
  proof (cases "x = a")
    case True
    show ?thesis
    proof (cases "f a")
      case None
      have "first_some f xs = None"
      proof (rule first_some_None)
        fix y assume "y \<in> set xs"
        then show "f y = None" using Cons.prems(2)[of y] None by (cases "y = a") auto
      qed
      with None True show ?thesis by simp
    next
      case (Some y)
      with True show ?thesis by simp
    qed
  next
    case False
    then have a: "a \<in> set xs" using Cons.prems(1) by simp
    have fx: "f x = None" using Cons.prems(2)[of x] False by simp
    have "first_some f xs = f a"
    proof (rule Cons.IH[OF a])
      fix y assume "y \<in> set xs" "y \<noteq> a"
      then show "f y = None" using Cons.prems(2)[of y] by simp
    qed
    with fx show ?thesis by simp
  qed
qed

lemma code_chars: "g \<in> set flex_codes \<Longrightarrow> c \<in> set g \<Longrightarrow> \<not> digit_or_dot c \<and> c \<noteq> CHR 0x0A"
  by (auto simp: flex_codes_def digit_or_dot_def)

lemma code_nonempty: "g \<in> set flex_codes \<Longrightarrow> g \<noteq> []"
  by (auto simp: flex_codes_def)

lemma flex_codes_cases:
  "g \<in> set flex_codes \<Longrightarrow>
   g = ''s'' \<or> g = ''r'' \<or> g = ''x'' \<or> g = ''tx'' \<or> g = ''xs'' \<or> g = ''a'' \<or> g = ''l''"
  by (simp add: flex_codes_def)

lemma match_code_exact: "g \<in> set flex_codes \<Longrightarrow> match_code g = Some g"
  by (drule flex_codes_cases, elim disjE) (simp_all add: match_code_def flex_codes_def at_end_def)

lemma match_code_newline: "g \<in> set flex_codes \<Longrightarrow> match_code (g @ [CHR 0x0A]) = Some g"
  by (drule flex_codes_cases, elim disjE) (simp_all add: match_code_def flex_codes_def at_end_def)

lemma find_SomeD': "List.find P xs = Some x \<Longrightarrow> x \<in> set xs \<and> P x"
  by (induction xs) (auto split: if_splits)

lemma match_code_SomeD:
  assumes "match_code t = Some g"
  shows "g \<in> set flex_codes \<and> (t = g \<or> t = g @ [CHR 0x0A])"
proof -
  from assms have "g \<in> set flex_codes \<and> (take (length g) t = g \<and> at_end (drop (length g) t))"
    unfolding match_code_def by (rule find_SomeD')
  then have g: "g \<in> set flex_codes" and tk: "take (length g) t = g"
    and e: "at_end (drop (length g) t)" by simp_all
  have "t = take (length g) t @ drop (length g) t" by simp
  then have t: "t = g @ drop (length g) t" using tk by simp
  from e have "drop (length g) t = [] \<or> drop (length g) t = [CHR 0x0A]" by (simp add: at_end_def)
  then have "t = g \<or> t = g @ [CHR 0x0A]"
  proof
    assume "drop (length g) t = []" with t show ?thesis by simp
  next
    assume "drop (length g) t = [CHR 0x0A]" with t show ?thesis by simp
  qed
  with g show ?thesis by simp
qed

lemma match_code_digit: "digit_or_dot c \<Longrightarrow> match_code (c # t) = None"
proof (cases "match_code (c # t)")
  case None then show ?thesis by simp
next
  case (Some g)
  assume d: "digit_or_dot c"
  from match_code_SomeD[OF Some] have g: "g \<in> set flex_codes"
    and t: "c # t = g \<or> c # t = g @ [CHR 0x0A]" by auto
  have "g \<noteq> []" by (rule code_nonempty[OF g])
  with t have "c \<in> set g" by (cases g) auto
  with code_chars[OF g] d show ?thesis by blast
qed

lemma match_here_eq:
  "match_here s = (if takeWhile digit_or_dot s = [] then None else match_code (dropWhile digit_or_dot s))"
proof (cases "takeWhile digit_or_dot s = []")
  case True
  then show ?thesis by (simp add: match_here_def)
next
  case False
  define n where "n = length (takeWhile digit_or_dot s)"
  have n: "0 < n" using False by (simp add: n_def)
  have nle: "n \<le> length s" unfolding n_def by (rule length_takeWhile_le)
  have fs: "first_some (\<lambda>k. match_code (drop k s)) (rev [1 ..< Suc n]) = match_code (drop n s)"
  proof (rule first_some_only)
    show "n \<in> set (rev [1 ..< Suc n])" using n by simp
  next
    fix k assume "k \<in> set (rev [1 ..< Suc n])" "k \<noteq> n"
    then have k: "k < n" by simp
    then have "k < length s" using nle by simp
    then have dk: "drop k s = s ! k # drop (Suc k) s" by (simp add: Cons_nth_drop_Suc)
    have "takeWhile digit_or_dot s ! k \<in> set (takeWhile digit_or_dot s)"
      using k unfolding n_def by (rule nth_mem)
    then have "digit_or_dot (takeWhile digit_or_dot s ! k)"
      by (rule set_takeWhileD[THEN conjunct2])
    moreover have "takeWhile digit_or_dot s ! k = s ! k"
      using k unfolding n_def by (rule takeWhile_nth)
    ultimately have "digit_or_dot (s ! k)" by simp
    then show "match_code (drop k s) = None" unfolding dk by (rule match_code_digit)
  qed
  have dn: "drop n s = dropWhile digit_or_dot s"
    unfolding n_def by (rule dropWhile_eq_drop[symmetric])
  have "match_here s = first_some (\<lambda>k. match_code (drop k s)) (rev [1 ..< Suc n])"
    unfolding match_here_def n_def Let_def ..
  also have "\<dots> = match_code (dropWhile digit_or_dot s)" unfolding fs dn ..
  finally show ?thesis using False by simp
qed


lemma takeWhile_code: "g \<in> set flex_codes \<Longrightarrow> takeWhile digit_or_dot g = []"
  by (drule flex_codes_cases, elim disjE) (simp_all add: digit_or_dot_def)

lemma dropWhile_code: "g \<in> set flex_codes \<Longrightarrow> dropWhile digit_or_dot g = g"
  by (drule flex_codes_cases, elim disjE) (simp_all add: digit_or_dot_def)

lemma match_here_digit_code:
  assumes "digit_or_dot d" and "g \<in> set flex_codes"
  shows "match_here (d # g) = Some g"
  using assms by (simp add: match_here_eq takeWhile_code dropWhile_code match_code_exact)

lemma match_here_SomeD:
  assumes "match_here t = Some g"
  shows "g \<in> set flex_codes \<and>
         (\<exists>r d e. t = r @ d # g @ e \<and> digit_or_dot d \<and> (e = [] \<or> e = [CHR 0x0A]))"
proof -
  let ?r = "takeWhile digit_or_dot t"
  from assms have ne: "?r \<noteq> []" and mc: "match_code (dropWhile digit_or_dot t) = Some g"
    by (auto simp: match_here_eq split: if_splits)
  from match_code_SomeD[OF mc] have g: "g \<in> set flex_codes"
    and dw: "dropWhile digit_or_dot t = g \<or> dropWhile digit_or_dot t = g @ [CHR 0x0A]" by auto
  from dw obtain e where e: "dropWhile digit_or_dot t = g @ e" "e = [] \<or> e = [CHR 0x0A]" by auto
  have "last ?r \<in> set ?r" using ne by simp
  then have d: "digit_or_dot (last ?r)" by (rule set_takeWhileD[THEN conjunct2])
  have "t = ?r @ dropWhile digit_or_dot t" by simp
  also have "\<dots> = (butlast ?r @ [last ?r]) @ g @ e" using ne e(1) by simp
  finally have "t = butlast ?r @ last ?r # g @ e" by simp
  with g d e(2) show ?thesis by blast
qed

lemma re_search_SomeD: "re_search s = Some g \<Longrightarrow> \<exists>p t. s = p @ t \<and> match_here t = Some g"
proof (induction s)
  case Nil
  then show ?case by simp
next
  case (Cons c cs)
  show ?case
  proof (cases "match_here (c # cs)")
    case None
    with Cons.prems have "re_search cs = Some g" by simp
    from Cons.IH[OF this] obtain p t where "cs = p @ t" "match_here t = Some g" by auto
    then have "c # cs = (c # p) @ t \<and> match_here t = Some g" by simp
    then show ?thesis by blast
  next
    case (Some g')
    with Cons.prems have "g' = g" by simp
    with Some have "c # cs = [] @ (c # cs) \<and> match_here (c # cs) = Some g" by simp
    then show ?thesis by blast
  qed
qed

lemma re_search_finds: "match_here t = Some g \<Longrightarrow> \<exists>g'. re_search (p @ t) = Some g'"
proof (induction p)
  case Nil
  then show ?case by (cases t) auto
next
  case (Cons c p)
  then show ?case by (cases "match_here (c # p @ t)") auto
qed

text \<open>The part of a string after its last digit or point.\<close>

lemma code_tail:
  assumes "digit_or_dot d" and "\<And>c. c \<in> set u \<Longrightarrow> \<not> digit_or_dot c"
  shows "rev (takeWhile (\<lambda>c. \<not> digit_or_dot c) (rev (p @ d # u))) = u"
proof -
  have "rev (p @ d # u) = rev u @ d # rev p" by simp
  moreover have "takeWhile (\<lambda>c. \<not> digit_or_dot c) (rev u @ d # rev p) =
      rev u @ takeWhile (\<lambda>c. \<not> digit_or_dot c) (d # rev p)"
    by (rule takeWhile_append2) (use assms(2) in simp)
  ultimately show ?thesis using assms(1) by simp
qed

lemma newline_not_digit: "\<not> digit_or_dot (CHR 0x0A)"
  by (simp add: digit_or_dot_def)

lemma re_search_ends:
  assumes "re_search s = Some g"
  shows "g \<in> set flex_codes \<and>
         (\<exists>p d e. s = p @ d # g @ e \<and> digit_or_dot d \<and> (e = [] \<or> e = [CHR 0x0A]))"
proof -
  from re_search_SomeD[OF assms] obtain p t where s: "s = p @ t" and m: "match_here t = Some g"
    by auto
  from match_here_SomeD[OF m] obtain r d e where g: "g \<in> set flex_codes"
    and t: "t = r @ d # g @ e" and d: "digit_or_dot d" and e: "e = [] \<or> e = [CHR 0x0A]" by auto
  from s t have "s = (p @ r) @ d # g @ e" by simp
  with g d e show ?thesis by blast
qed

lemma re_search_digit_code:
  assumes d: "digit_or_dot d" and g: "g \<in> set flex_codes"
  shows "re_search (p @ d # g) = Some g"
proof -
  from re_search_finds[OF match_here_digit_code[OF d g]]
  obtain g' where r: "re_search (p @ d # g) = Some g'" by auto
  from re_search_ends[OF r] obtain p' d' e where g': "g' \<in> set flex_codes"
    and s: "p @ d # g = p' @ d' # g' @ e" and d': "digit_or_dot d'"
    and e: "e = [] \<or> e = [CHR 0x0A]" by auto
  have "rev (takeWhile (\<lambda>c. \<not> digit_or_dot c) (rev (p @ d # g))) = g"
    using d code_chars[OF g] by (intro code_tail) auto
  moreover have "rev (takeWhile (\<lambda>c. \<not> digit_or_dot c) (rev (p' @ d' # g' @ e))) = g' @ e"
    using d' code_chars[OF g'] e newline_not_digit by (intro code_tail) auto
  ultimately have eq: "g = g' @ e" using s by simp
  have "e = []"
  proof (rule ccontr)
    assume "e \<noteq> []"
    with e have "e = [CHR 0x0A]" by simp
    with eq have "CHR 0x0A \<in> set g" by simp
    with code_chars[OF g] show False by blast
  qed
  with eq r show ?thesis by simp
qed


lemma char_lower_space: "\<not> is_space c \<Longrightarrow> \<not> is_space (char_lower c)"
  by (cases c) (auto simp: char_lower_def is_space_def is_upper_def Let_def split: if_splits)

lemma strip_last: "strip s \<noteq> [] \<Longrightarrow> \<not> is_space (last (strip s))"
proof -
  let ?u = "dropWhile is_space (rev (dropWhile is_space s))"
  assume "strip s \<noteq> []"
  then have u: "?u \<noteq> []" by (simp add: strip_def)
  then have "\<not> is_space (hd ?u)" by (rule hd_dropWhile)
  moreover have "last (strip s) = hd ?u" using u by (simp add: strip_def last_rev)
  ultimately show ?thesis by simp
qed

lemma last_filter_keep: "xs \<noteq> [] \<Longrightarrow> P (last xs) \<Longrightarrow> last (filter P xs) = last xs"
  by (cases xs rule: rev_cases) simp_all

lemma clean_flex_last:
  assumes "clean_flex raw \<noteq> []"
  shows "last (clean_flex raw) \<noteq> CHR 0x0A"
proof -
  let ?t = "strip raw"
  from assms have t: "?t \<noteq> []" by (auto simp: clean_flex_def remove_spaces_def lower_def)
  have ns: "\<not> is_space (char_lower (last ?t))"
    using strip_last[OF t] by (rule char_lower_space)
  have l: "last (lower ?t) = char_lower (last ?t)" using t by (simp add: lower_def last_map)
  have "is_space (CHR '' '')" by (simp add: is_space_def)
  with ns l have "last (lower ?t) \<noteq> CHR '' ''" by auto
  moreover have "lower ?t \<noteq> []" using t by (simp add: lower_def)
  ultimately have "last (clean_flex raw) = last (lower ?t)"
    unfolding clean_flex_def remove_spaces_def by (simp add: last_filter_keep)
  moreover have "is_space (CHR 0x0A)" by (simp add: is_space_def)
  ultimately show ?thesis using ns l by auto
qed

lemma FLEX_MAP_no_digit: "FLEX_MAP s = Some f \<Longrightarrow> c \<in> set s \<Longrightarrow> \<not> digit_or_dot c"
  unfolding FLEX_MAP_def
  by (drule map_of_SomeD) (auto simp: digit_or_dot_def)

lemma FLEX_MAP_code: "g \<in> set flex_codes \<Longrightarrow> \<exists>f. FLEX_MAP g = Some f"
  by (drule flex_codes_cases, elim disjE) (simp_all add: FLEX_MAP_def)

lemma ends_in_weight_code_search:
  "ends_in_weight_code s g \<Longrightarrow> re_search s = Some g"
  unfolding ends_in_weight_code_def using re_search_digit_code by auto

lemma search_ends_in_weight_code:
  assumes "re_search s = Some g" and "s = [] \<or> last s \<noteq> CHR 0x0A"
  shows "ends_in_weight_code s g"
proof -
  from re_search_ends[OF assms(1)] obtain p d e where g: "g \<in> set flex_codes"
    and s: "s = p @ d # g @ e" and d: "digit_or_dot d" and e: "e = [] \<or> e = [CHR 0x0A]" by auto
  have "e = []"
  proof (rule ccontr)
    assume "e \<noteq> []"
    with e s have "last s = CHR 0x0A" by simp
    with assms(2) s show False by simp
  qed
  with s g d show ?thesis unfolding ends_in_weight_code_def by auto
qed

text \<open>
  Claim C2, amended. For a string whose cleaned form (trimmed, lower-cased, spaces
  removed) is a key of \<^verbatim>\<open>FLEX_MAP\<close>, \<^verbatim>\<open>normalize_flex\<close> returns the value of the key.
  For a string whose cleaned form ends in a non-empty run of digits and points followed
  by one of the codes s, r, x, tx, xs, a, l, it returns the flex of that code. For every
  other string it raises the ValueError "Cannot normalize flex". The run need not hold a
  digit: the pattern is \<^verbatim>\<open>[0-9.]+\<close>, and a point alone before the code matches it.
\<close>

theorem normalize_flex_spec:
  "(\<forall>f. FLEX_MAP (clean_flex raw) = Some f \<longrightarrow> normalize_flex raw = Inr f)
   \<and> (\<forall>g. ends_in_weight_code (clean_flex raw) g \<longrightarrow>
         (\<exists>f. FLEX_MAP g = Some f \<and> normalize_flex raw = Inr f))
   \<and> (FLEX_MAP (clean_flex raw) = None \<and> (\<forall>g. \<not> ends_in_weight_code (clean_flex raw) g) \<longrightarrow>
         normalize_flex raw =
           Inl (ValueError (''Cannot normalize flex: '' @ [CHR 0x27] @ raw @ [CHR 0x27])))"
proof (intro conjI allI impI)
  fix f assume "FLEX_MAP (clean_flex raw) = Some f"
  then show "normalize_flex raw = Inr f" by (simp add: normalize_flex_def)
next
  fix g assume e: "ends_in_weight_code (clean_flex raw) g"
  then have g: "g \<in> set flex_codes" and "\<exists>p d. clean_flex raw = p @ d # g \<and> digit_or_dot d"
    by (auto simp: ends_in_weight_code_def)
  then obtain p d where c: "clean_flex raw = p @ d # g" and d: "digit_or_dot d" by auto
  have "FLEX_MAP (clean_flex raw) = None"
  proof (cases "FLEX_MAP (clean_flex raw)")
    case None then show ?thesis .
  next
    case (Some f')
    have "d \<in> set (clean_flex raw)" using c by simp
    from FLEX_MAP_no_digit[OF Some this] d show ?thesis by simp
  qed
  moreover from FLEX_MAP_code[OF g] obtain f where f: "FLEX_MAP g = Some f" by auto
  ultimately have "normalize_flex raw = Inr f"
    using ends_in_weight_code_search[OF e] by (simp add: normalize_flex_def)
  with f show "\<exists>f. FLEX_MAP g = Some f \<and> normalize_flex raw = Inr f" by simp
next
  assume a: "FLEX_MAP (clean_flex raw) = None \<and> (\<forall>g. \<not> ends_in_weight_code (clean_flex raw) g)"
  have "re_search (clean_flex raw) = None"
  proof (cases "re_search (clean_flex raw)")
    case None then show ?thesis .
  next
    case (Some g)
    have "clean_flex raw = [] \<or> last (clean_flex raw) \<noteq> CHR 0x0A"
      using clean_flex_last by blast
    from search_ends_in_weight_code[OF Some this] a show ?thesis by simp
  qed
  with a show "normalize_flex raw =
      Inl (ValueError (''Cannot normalize flex: '' @ [CHR 0x27] @ raw @ [CHR 0x27]))"
    by (simp add: normalize_flex_def)
qed

theorem normalize_flex_spec_witness:
  "FLEX_MAP (clean_flex '' X-Stiff '') = Some X_STIFF \<and> normalize_flex '' X-Stiff '' = Inr X_STIFF
   \<and> ends_in_weight_code (clean_flex ''6.0S'') ''s'' \<and> normalize_flex ''6.0S'' = Inr STIFF
   \<and> ends_in_weight_code (clean_flex ''60X'') ''x'' \<and> normalize_flex ''60X'' = Inr X_STIFF
   \<and> FLEX_MAP (clean_flex ''banana'') = None
   \<and> (\<forall>g. \<not> ends_in_weight_code (clean_flex ''banana'') g)
   \<and> normalize_flex ''banana'' =
        Inl (ValueError (''Cannot normalize flex: '' @ [CHR 0x27] @ ''banana'' @ [CHR 0x27]))"
proof -
  have c1: "clean_flex '' X-Stiff '' = ''x-stiff''" by (simp add: clean_simps)
  have c2: "clean_flex ''6.0S'' = ''6.0s''" by (simp add: clean_simps)
  have c3: "clean_flex ''60X'' = ''60x''" by (simp add: clean_simps)
  have c4: "clean_flex ''banana'' = ''banana''" by (simp add: clean_simps)
  have h1: "FLEX_MAP (clean_flex '' X-Stiff '') = Some X_STIFF" by (simp add: c1 FLEX_MAP_def)
  have "''6.0s'' = ''6.'' @ CHR ''0'' # ''s''" by simp
  then have h2: "ends_in_weight_code (clean_flex ''6.0S'') ''s''"
    unfolding c2 ends_in_weight_code_def by (auto simp: flex_codes_def digit_or_dot_def)
  have "''60x'' = ''6'' @ CHR ''0'' # ''x''" by simp
  then have h3: "ends_in_weight_code (clean_flex ''60X'') ''x''"
    unfolding c3 ends_in_weight_code_def by (auto simp: flex_codes_def digit_or_dot_def)
  have h4: "FLEX_MAP (clean_flex ''banana'') = None" by (simp add: c4 FLEX_MAP_def)
  have h5: "\<forall>g. \<not> ends_in_weight_code (clean_flex ''banana'') g"
  proof (intro allI notI)
    fix g assume "ends_in_weight_code (clean_flex ''banana'') g"
    then obtain p d where "''banana'' = p @ d # g" and d: "digit_or_dot d"
      unfolding c4 ends_in_weight_code_def by auto
    then have "d \<in> set ''banana''" by (metis in_set_conv_decomp)
    with d show False by (auto simp: digit_or_dot_def)
  qed
  have f2: "FLEX_MAP ''s'' = Some STIFF" and f3: "FLEX_MAP ''x'' = Some X_STIFF"
    by (simp_all add: FLEX_MAP_def)
  from normalize_flex_spec[of "'' X-Stiff ''"] h1
  have r1: "normalize_flex '' X-Stiff '' = Inr X_STIFF" by blast
  from normalize_flex_spec[of "''6.0S''"] h2 f2
  have r2: "normalize_flex ''6.0S'' = Inr STIFF" by fastforce
  from normalize_flex_spec[of "''60X''"] h3 f3
  have r3: "normalize_flex ''60X'' = Inr X_STIFF" by fastforce
  from normalize_flex_spec[of "''banana''"] h4 h5
  have r4: "normalize_flex ''banana'' =
      Inl (ValueError (''Cannot normalize flex: '' @ [CHR 0x27] @ ''banana'' @ [CHR 0x27]))"
    by blast
  from h1 h2 h3 h4 h5 r1 r2 r3 r4 show ?thesis by blast
qed

text \<open>The cleaned string \<^verbatim>\<open>.s\<close> is no key and holds no digit, and yet it normalizes
  to Stiff.\<close>

theorem normalize_flex_point_counterexample:
  "normalize_flex ''.s'' = Inr STIFF"
  by (simp add: flex_eval)


subsection \<open>Deduplication\<close>

lemma dedup_loop_append:
  "dedup_loop seen acc (xs @ ys) =
     dedup_loop (seen \<union> display_name ` set xs) (dedup_loop seen acc xs) ys"
proof (induction xs arbitrary: seen acc)
  case Nil
  then show ?case by simp
next
  case (Cons x xs)
  show ?case
  proof (cases "display_name x \<in> seen")
    case True
    then have "seen \<union> display_name ` set (x # xs) = seen \<union> display_name ` set xs" by auto
    with True Cons.IH[of seen acc] show ?thesis by (simp add: Let_def)
  next
    case False
    have "insert (display_name x) seen \<union> display_name ` set xs =
          seen \<union> display_name ` set (x # xs)" by auto
    with False Cons.IH[of "insert (display_name x) seen" "acc @ [x]"] show ?thesis
      by (simp add: Let_def)
  qed
qed

lemma deduplicate_Nil: "deduplicate [] = []"
  by (simp add: deduplicate_def)

lemma deduplicate_snoc:
  "deduplicate (xs @ [x]) =
     (if display_name x \<in> display_name ` set xs then deduplicate xs else deduplicate xs @ [x])"
  unfolding deduplicate_def dedup_loop_append[of "{}" "[]" xs "[x]"] by simp

lemma deduplicate_keys: "display_name ` set (deduplicate xs) = display_name ` set xs"
  by (induction xs rule: rev_induct) (auto simp: deduplicate_Nil deduplicate_snoc)

lemma deduplicate_distinct: "distinct (map display_name (deduplicate xs))"
proof (induction xs rule: rev_induct)
  case Nil
  then show ?case by (simp add: deduplicate_Nil)
next
  case (snoc x xs)
  then show ?case using deduplicate_keys[of xs] by (auto simp: deduplicate_snoc)
qed

lemma first_occurrence_append:
  "i < length xs \<Longrightarrow> first_occurrence (xs @ ys) i = first_occurrence xs i"
  by (simp add: first_occurrence_def nth_append)

lemma first_occurrence_last:
  "first_occurrence (xs @ [x]) (length xs) = (display_name x \<notin> display_name ` set xs)"
proof -
  have "first_occurrence (xs @ [x]) (length xs) =
        (\<forall>j<length xs. display_name (xs ! j) \<noteq> display_name x)"
    by (simp add: first_occurrence_def nth_append)
  also have "\<dots> = (display_name x \<notin> display_name ` set xs)"
  proof
    assume a: "\<forall>j<length xs. display_name (xs ! j) \<noteq> display_name x"
    show "display_name x \<notin> display_name ` set xs"
    proof
      assume "display_name x \<in> display_name ` set xs"
      then obtain y where "y \<in> set xs" "display_name x = display_name y" by auto
      then obtain j where "j < length xs" "xs ! j = y" by (auto simp: in_set_conv_nth)
      with a \<open>display_name x = display_name y\<close> show False by auto
    qed
  next
    assume a: "display_name x \<notin> display_name ` set xs"
    show "\<forall>j<length xs. display_name (xs ! j) \<noteq> display_name x"
    proof (intro allI impI notI)
      fix j assume "j < length xs" "display_name (xs ! j) = display_name x"
      then have "display_name x \<in> display_name ` set xs" by (metis imageI nth_mem)
      with a show False by simp
    qed
  qed
  finally show ?thesis .
qed

text \<open>
  Claim C5. The deduplication of \<^verbatim>\<open>main\<close> keeps, of the records of a list, exactly those
  that are the first with their display name, in the order of the list: a record whose
  display name an earlier record has is dropped. No two of the records kept share a
  display name.
\<close>

theorem deduplicate_spec:
  "deduplicate specs =
     map (\<lambda>i. specs ! i) (filter (first_occurrence specs) [0 ..< length specs])
   \<and> distinct (map display_name (deduplicate specs))"
proof
  show "deduplicate specs =
      map (\<lambda>i. specs ! i) (filter (first_occurrence specs) [0 ..< length specs])"
  proof (induction specs rule: rev_induct)
    case Nil
    then show ?case by (simp add: deduplicate_Nil)
  next
    case (snoc x xs)
    have f: "filter (first_occurrence (xs @ [x])) [0 ..< length xs] =
             filter (first_occurrence xs) [0 ..< length xs]"
      by (rule filter_cong) (simp_all add: first_occurrence_append)
    have m: "map (\<lambda>i. (xs @ [x]) ! i) (filter (first_occurrence xs) [0 ..< length xs]) =
             map (\<lambda>i. xs ! i) (filter (first_occurrence xs) [0 ..< length xs])"
      by (rule map_cong) (simp_all add: nth_append)
    show ?case
      using snoc.IH f m by (simp add: deduplicate_snoc first_occurrence_last)
  qed
next
  show "distinct (map display_name (deduplicate specs))" by (rule deduplicate_distinct)
qed

theorem deduplicate_spec_witness:
  "deduplicate [spec_ventus, spec_kbs, spec_ventus\<lparr>weight_grams := Fin 70\<rparr>, spec_kbs] =
     [spec_ventus, spec_kbs]"
proof -
  let ?l = "[spec_ventus, spec_kbs, spec_ventus\<lparr>weight_grams := Fin 70\<rparr>, spec_kbs]"
  have d: "display_name spec_ventus \<noteq> display_name spec_kbs"
    by (simp add: display_name_def spec_ventus_def spec_kbs_def)
  have e: "display_name (spec_ventus\<lparr>weight_grams := Fin 70\<rparr>) = display_name spec_ventus"
    by (simp add: display_name_def)
  have "filter (first_occurrence ?l) [0 ..< length ?l] = [0, 1]"
    using d e by (simp add: upt_rec first_occurrence_def All_less_Suc)
  then have "map (\<lambda>i. ?l ! i) (filter (first_occurrence ?l) [0 ..< length ?l]) =
      [spec_ventus, spec_kbs]"
    by simp
  with deduplicate_spec[of ?l] show ?thesis by simp
qed


subsection \<open>Numeric coercion\<close>

lemma safe_float_absent:
  "safe_float rt PNone = Inr None" "safe_float rt (PFloat NaN) = Inr None"
  by (simp_all add: safe_float_def is_float_def)

lemma safe_float_str: "safe_float rt (PStr s) = Inr (float_of_str rt s)"
  by (cases "float_of_str rt s") (simp_all add: safe_float_def is_float_def)

lemma safe_float_returns:
  assumes "\<And>n. val = PInt n \<Longrightarrow> int_fits_float n"
  shows "\<exists>x. safe_float rt val = Inr x"
proof (cases val)
  case (PInt n)
  with assms show ?thesis by (simp add: safe_float_def is_float_def)
next
  case (PStr s)
  then show ?thesis by (simp add: safe_float_str)
qed (simp_all add: safe_float_def is_float_def)

lemma safe_float_None_iff:
  "safe_float rt v = Inr None \<longleftrightarrow> absent_or_unparseable rt v"
proof (cases v)
  case (PStr s)
  then show ?thesis by (simp add: safe_float_str absent_or_unparseable_def)
qed (auto simp: safe_float_def is_float_def absent_or_unparseable_def)

text \<open>
  Claim C8. \<^verbatim>\<open>safe_float\<close> is to return a float or None for every value and never to
  raise. It does so for None, NaN, bools, floats, strings and the ints that fit a float
  (\<open>safe_float_returns\<close>); for an int too large for a float, \<^verbatim>\<open>float(val)\<close> raises
  OverflowError, which is neither a ValueError nor a TypeError, and the exception leaves
  the function.
\<close>

theorem safe_float_overflow:
  "safe_float rt (PInt (10 ^ 400)) = Inl OverflowError"
  by (simp add: safe_float_def is_float_def int_fits_float_def)


subsection \<open>The constructor and the rows\<close>

lemma ShaftSpec_build_Inr:
  assumes "ShaftSpec_build a1 a2 a3 a4 a5 a6 a7 a8 a9 a10 a11 a12 a13 a14 a15 a16 = Inr s"
  shows "a1 = Some (manufacturer s) \<and> a2 = Some (model s) \<and> a3 = Some (generation s)
    \<and> a4 = Some (club_type s) \<and> a5 = Some (flex s) \<and> a6 = Some (weight_grams s)
    \<and> a7 = Some (length_inches s) \<and> a8 = Some (torque_degrees s) \<and> a9 = Some (launch s)
    \<and> a10 = Some (spin s) \<and> a11 = Some (butt_diameter_inches s)
    \<and> a12 = Some (tip_diameter_inches s) \<and> a13 = Some (tip_stiff s)
    \<and> a14 = Some (kickpoint s) \<and> a15 = Some (material s) \<and> a16 = Some (msrp_usd s)"
proof -
  define L where "L = [(''manufacturer'', a1 \<noteq> None), (''model'', a2 \<noteq> None),
     (''generation'', a3 \<noteq> None), (''club_type'', a4 \<noteq> None), (''flex'', a5 \<noteq> None),
     (''weight_grams'', a6 \<noteq> None), (''length_inches'', a7 \<noteq> None),
     (''torque_degrees'', a8 \<noteq> None), (''launch'', a9 \<noteq> None), (''spin'', a10 \<noteq> None),
     (''butt_diameter_inches'', a11 \<noteq> None), (''tip_diameter_inches'', a12 \<noteq> None),
     (''tip_stiff'', a13 \<noteq> None), (''kickpoint'', a14 \<noteq> None), (''material'', a15 \<noteq> None),
     (''msrp_usd'', a16 \<noteq> None)]"
  define failed where "failed = map fst (filter (\<lambda>(name, ok). \<not> ok) L)"
  define rec where "rec = \<lparr> manufacturer = the a1, model = the a2, generation = the a3,
     club_type = the a4, flex = the a5, weight_grams = the a6, length_inches = the a7,
     torque_degrees = the a8, launch = the a9, spin = the a10, butt_diameter_inches = the a11,
     tip_diameter_inches = the a12, tip_stiff = the a13, kickpoint = the a14,
     material = the a15, msrp_usd = the a16 \<rparr>"
  have eq: "ShaftSpec_build a1 a2 a3 a4 a5 a6 a7 a8 a9 a10 a11 a12 a13 a14 a15 a16 =
      (if failed = [] then Inr rec else Inl (ValidationError failed))"
    unfolding ShaftSpec_build_def Let_def failed_def L_def rec_def ..
  from assms eq have f: "failed = []" and s: "s = rec"
    by (auto split: if_splits)
  from f have "filter (\<lambda>(name, ok). \<not> ok) L = []" unfolding failed_def by simp
  then have "\<forall>x\<in>set L. snd x" by (auto simp: filter_empty_conv)
  then have some: "a1 \<noteq> None" "a2 \<noteq> None" "a3 \<noteq> None" "a4 \<noteq> None" "a5 \<noteq> None"
    "a6 \<noteq> None" "a7 \<noteq> None" "a8 \<noteq> None" "a9 \<noteq> None" "a10 \<noteq> None" "a11 \<noteq> None"
    "a12 \<noteq> None" "a13 \<noteq> None" "a14 \<noteq> None" "a15 \<noteq> None" "a16 \<noteq> None"
    unfolding L_def by simp_all
  show ?thesis unfolding s rec_def using some by simp
qed

lemma ShaftSpec_build_Some:
  "ShaftSpec_build (Some b1) (Some b2) (Some b3) (Some b4) (Some b5) (Some b6) (Some b7)
     (Some b8) (Some b9) (Some b10) (Some b11) (Some b12) (Some b13) (Some b14) (Some b15)
     (Some b16) =
   Inr \<lparr> manufacturer = b1, model = b2, generation = b3, club_type = b4, flex = b5,
         weight_grams = b6, length_inches = b7, torque_degrees = b8, launch = b9, spin = b10,
         butt_diameter_inches = b11, tip_diameter_inches = b12, tip_stiff = b13,
         kickpoint = b14, material = b15, msrp_usd = b16 \<rparr>"
  by (simp add: ShaftSpec_build_def)




lemma normalize_row_InrD:
  assumes "normalize_row rt r mfr ctype = Inr s"
  shows "\<exists>flex w length torque launch spin kickpoint tip_stiff butt_dia tip_dia msrp.
     normalize_flex (row_flex_raw rt r) = Inr flex
   \<and> safe_float rt (py_or [row_get r ''weight'', row_get r ''weight_grams'', row_get r ''wt''])
        = Inr (Some w)
   \<and> safe_float rt
        (py_or [row_get r ''length'', row_get r ''length_inches'', row_get r ''raw_length''])
        = Inr length
   \<and> safe_float rt (py_or [row_get r ''torque'', row_get r ''torque_degrees'']) = Inr torque
   \<and> normalize_launch (py_or [row_get r ''launch'', row_get r ''launch_profile'']) = Inr launch
   \<and> normalize_spin (py_or [row_get r ''spin'', row_get r ''spin_profile'']) = Inr spin
   \<and> normalize_kickpoint
        (py_or [row_get r ''kickpoint'', row_get r ''kick_point'', row_get r ''bend_point''])
        = Inr kickpoint
   \<and> normalize_tip_stiffness
        (py_or [row_get r ''tip_stiff'', row_get r ''tip_stiffness'', row_get r ''tip''])
        = Inr tip_stiff
   \<and> safe_float rt (py_or [row_get r ''butt_diameter'', row_get r ''butt'']) = Inr butt_dia
   \<and> safe_float rt (py_or [row_get r ''tip_diameter'', row_get r ''tip_dia'']) = Inr tip_dia
   \<and> safe_float rt (py_or [row_get r ''msrp'', row_get r ''msrp_usd'', row_get r ''price''])
        = Inr msrp
   \<and> ShaftSpec_init rt
       [(''manufacturer'', PStr mfr),
        (''model'', PStr (row_model rt r)),
        (''generation'', row_generation rt r),
        (''club_type'', PStr (ClubType_value ctype)),
        (''flex'', PStr (Flex_value flex)),
        (''weight_grams'', PFloat w),
        (''length_inches'', opt_float length),
        (''torque_degrees'', opt_float torque),
        (''launch'', opt_enum LaunchProfile_value launch),
        (''spin'', opt_enum SpinProfile_value spin),
        (''butt_diameter_inches'', opt_float butt_dia),
        (''tip_diameter_inches'', opt_float tip_dia),
        (''tip_stiff'', opt_enum TipStiffness_value tip_stiff),
        (''kickpoint'', opt_enum Kickpoint_value kickpoint),
        (''material'', PStr (row_material rt r)),
        (''msrp_usd'', opt_float msrp)] = Inr s"
  using assms unfolding normalize_row_def
  apply (simp only: bind_err_Inr_iff)
  apply (elim exE conjE)
  apply (simp only: split: option.split_asm)
   apply (simp only: Inl_Inr_False)
  apply (simp only: bind_err_Inr_iff)
  apply (elim exE conjE)
  apply (intro exI conjI; (assumption | rule refl))
  done

lemma v_opt_float:
  "v_length_inches rt (Some (opt_float x)) = Some y \<Longrightarrow> y = x"
  "v_torque_degrees rt (Some (opt_float x)) = Some y \<Longrightarrow> y = x"
  "v_msrp_usd rt (Some (opt_float x)) = Some y \<Longrightarrow> y = x"
  "optional (float_type rt) (Some (opt_float x)) = Some y \<Longrightarrow> y = x"
  by (cases x; auto simp: v_length_inches_def v_torque_degrees_def v_msrp_usd_def optional_def
      opt_float_def check_def float_type_def split: if_splits)+

lemma v_weight_float: "v_weight_grams rt (Some (PFloat w)) = Some y \<Longrightarrow> y = w"
  by (auto simp: v_weight_grams_def required_def check_def float_type_def split: if_splits)

lemma enum_Flex: "required (enum_type Flex_value Flex_members) (Some (PStr (Flex_value f))) = Some f"
  by (cases f) (simp_all add: required_def enum_type_def Flex_members_def)

lemma enum_ClubType:
  "required (enum_type ClubType_value ClubType_members) (Some (PStr (ClubType_value c))) = Some c"
  by (cases c) (simp_all add: required_def enum_type_def ClubType_members_def)

lemma enum_Launch:
  "optional (enum_type LaunchProfile_value LaunchProfile_members)
     (Some (opt_enum LaunchProfile_value x)) = Some x"
proof (cases x)
  case None then show ?thesis by (simp add: optional_def opt_enum_def)
next
  case (Some m) then show ?thesis
    by (cases m) (simp_all add: optional_def opt_enum_def enum_type_def LaunchProfile_members_def)
qed

lemma enum_Spin:
  "optional (enum_type SpinProfile_value SpinProfile_members)
     (Some (opt_enum SpinProfile_value x)) = Some x"
proof (cases x)
  case None then show ?thesis by (simp add: optional_def opt_enum_def)
next
  case (Some m) then show ?thesis
    by (cases m) (simp_all add: optional_def opt_enum_def enum_type_def SpinProfile_members_def)
qed

lemma enum_TipStiffness:
  "optional (enum_type TipStiffness_value TipStiffness_members)
     (Some (opt_enum TipStiffness_value x)) = Some x"
proof (cases x)
  case None then show ?thesis by (simp add: optional_def opt_enum_def)
next
  case (Some m) then show ?thesis
    by (cases m) (simp_all add: optional_def opt_enum_def enum_type_def TipStiffness_members_def)
qed

lemma enum_Kickpoint:
  "optional (enum_type Kickpoint_value Kickpoint_members)
     (Some (opt_enum Kickpoint_value x)) = Some x"
proof (cases x)
  case None then show ?thesis by (simp add: optional_def opt_enum_def)
next
  case (Some m) then show ?thesis
    by (cases m) (simp_all add: optional_def opt_enum_def enum_type_def Kickpoint_members_def)
qed

lemma v_name_nonempty: "m \<noteq> [] \<Longrightarrow> v_name (Some (PStr m)) = Some (strip m)"
  by (cases m) (simp_all add: v_name_def required_def check_def str_type_def)

lemma v_weight_valid:
  "float_lt (Fin 0) w \<Longrightarrow> float_lt w (Fin 300) \<Longrightarrow> v_weight_grams rt (Some (PFloat w)) = Some w"
  by (simp add: v_weight_grams_def required_def check_def float_type_def)

lemma with_default_str: "with_default d str_type (Some (PStr m)) = Some m"
  by (simp add: with_default_def str_type_def)

text \<open>The fields of the record a row normalizes to are the values the field normalizers
  computed.\<close>

lemma normalize_row_fields:
  assumes "normalize_row rt r mfr ctype = Inr s"
  shows "normalize_flex (row_flex_raw rt r) = Inr (flex s)"
    and "safe_float rt (py_or [row_get r ''weight'', row_get r ''weight_grams'', row_get r ''wt''])
         = Inr (Some (weight_grams s))"
    and "safe_float rt (py_or [row_get r ''torque'', row_get r ''torque_degrees''])
         = Inr (torque_degrees s)"
    and "safe_float rt (py_or [row_get r ''msrp'', row_get r ''msrp_usd'', row_get r ''price''])
         = Inr (msrp_usd s)"
proof -
  from normalize_row_InrD[OF assms]
  obtain flex0 w length0 torque launch0 spin0 kickpoint0 tip_stiff0 butt_dia tip_dia msrp where
    f: "normalize_flex (row_flex_raw rt r) = Inr flex0"
    and w: "safe_float rt (py_or [row_get r ''weight'', row_get r ''weight_grams'', row_get r ''wt''])
        = Inr (Some w)"
    and t: "safe_float rt (py_or [row_get r ''torque'', row_get r ''torque_degrees'']) = Inr torque"
    and m: "safe_float rt (py_or [row_get r ''msrp'', row_get r ''msrp_usd'', row_get r ''price''])
        = Inr msrp"
    and i: "ShaftSpec_init rt
       [(''manufacturer'', PStr mfr),
        (''model'', PStr (row_model rt r)),
        (''generation'', row_generation rt r),
        (''club_type'', PStr (ClubType_value ctype)),
        (''flex'', PStr (Flex_value flex0)),
        (''weight_grams'', PFloat w),
        (''length_inches'', opt_float length0),
        (''torque_degrees'', opt_float torque),
        (''launch'', opt_enum LaunchProfile_value launch0),
        (''spin'', opt_enum SpinProfile_value spin0),
        (''butt_diameter_inches'', opt_float butt_dia),
        (''tip_diameter_inches'', opt_float tip_dia),
        (''tip_stiff'', opt_enum TipStiffness_value tip_stiff0),
        (''kickpoint'', opt_enum Kickpoint_value kickpoint0),
        (''material'', PStr (row_material rt r)),
        (''msrp_usd'', opt_float msrp)] = Inr s"
    by blast
  from i have "ShaftSpec_build
       (v_name (Some (PStr mfr)))
       (v_name (Some (PStr (row_model rt r))))
       (optional str_type (Some (row_generation rt r)))
       (required (enum_type ClubType_value ClubType_members) (Some (PStr (ClubType_value ctype))))
       (required (enum_type Flex_value Flex_members) (Some (PStr (Flex_value flex0))))
       (v_weight_grams rt (Some (PFloat w)))
       (v_length_inches rt (Some (opt_float length0)))
       (v_torque_degrees rt (Some (opt_float torque)))
       (optional (enum_type LaunchProfile_value LaunchProfile_members)
          (Some (opt_enum LaunchProfile_value launch0)))
       (optional (enum_type SpinProfile_value SpinProfile_members)
          (Some (opt_enum SpinProfile_value spin0)))
       (optional (float_type rt) (Some (opt_float butt_dia)))
       (optional (float_type rt) (Some (opt_float tip_dia)))
       (optional (enum_type TipStiffness_value TipStiffness_members)
          (Some (opt_enum TipStiffness_value tip_stiff0)))
       (optional (enum_type Kickpoint_value Kickpoint_members)
          (Some (opt_enum Kickpoint_value kickpoint0)))
       (with_default ''graphite'' str_type (Some (PStr (row_material rt r))))
       (v_msrp_usd rt (Some (opt_float msrp))) = Inr s"
    by (simp add: ShaftSpec_init_def)
  from ShaftSpec_build_Inr[OF this]
  have "required (enum_type Flex_value Flex_members) (Some (PStr (Flex_value flex0))) = Some (flex s)"
    and "v_weight_grams rt (Some (PFloat w)) = Some (weight_grams s)"
    and "v_torque_degrees rt (Some (opt_float torque)) = Some (torque_degrees s)"
    and "v_msrp_usd rt (Some (opt_float msrp)) = Some (msrp_usd s)"
    by simp_all
  then have "flex s = flex0" "weight_grams s = w" "torque_degrees s = torque" "msrp_usd s = msrp"
    using enum_Flex[of flex0] v_weight_float v_opt_float by auto
  with f w t m show "normalize_flex (row_flex_raw rt r) = Inr (flex s)"
    and "safe_float rt (py_or [row_get r ''weight'', row_get r ''weight_grams'', row_get r ''wt''])
         = Inr (Some (weight_grams s))"
    and "safe_float rt (py_or [row_get r ''torque'', row_get r ''torque_degrees''])
         = Inr (torque_degrees s)"
    and "safe_float rt (py_or [row_get r ''msrp'', row_get r ''msrp_usd'', row_get r ''price''])
         = Inr (msrp_usd s)"
    by simp_all
qed


subsection \<open>When a row normalizes\<close>

lemma v_name_SomeD:
  "v_name a = Some m \<Longrightarrow> \<exists>raw. a = Some (PStr raw) \<and> raw \<noteq> [] \<and> m = strip raw"
  by (auto simp: v_name_def required_def check_def str_type_def
      split: option.splits pyval.splits if_splits)

lemma v_weight_SomeD:
  "v_weight_grams rt a = Some w \<Longrightarrow> float_lt (Fin 0) w \<and> float_lt w (Fin 300)"
  by (auto simp: v_weight_grams_def required_def check_def split: option.splits if_splits)

lemma v_length_SomeD:
  "v_length_inches rt a = Some (Some l) \<Longrightarrow> float_lt (Fin 0) l \<and> float_lt l (Fin 60)"
  by (auto simp: v_length_inches_def optional_def check_def split: option.splits if_splits)

lemma v_torque_SomeD:
  "v_torque_degrees rt a = Some (Some t) \<Longrightarrow> float_le (Fin 0) t \<and> float_lt t (Fin 15)"
  by (auto simp: v_torque_degrees_def optional_def check_def split: option.splits if_splits)

lemma v_msrp_SomeD:
  "v_msrp_usd rt a = Some (Some m) \<Longrightarrow> float_le (Fin 0) m"
  by (auto simp: v_msrp_usd_def optional_def check_def split: option.splits if_splits)

lemma optional_str:
  "optional str_type (Some (case g of None \<Rightarrow> PNone | Some x \<Rightarrow> PStr x)) = Some g"
  by (cases g) (simp_all add: optional_def str_type_def)

lemma v_length_valid:
  "(\<And>l. x = Some l \<Longrightarrow> float_lt (Fin 0) l \<and> float_lt l (Fin 60)) \<Longrightarrow>
   v_length_inches rt (Some (opt_float x)) = Some x"
  by (cases x) (simp_all add: v_length_inches_def optional_def opt_float_def check_def float_type_def)

lemma v_torque_valid:
  "(\<And>t. x = Some t \<Longrightarrow> float_le (Fin 0) t \<and> float_lt t (Fin 15)) \<Longrightarrow>
   v_torque_degrees rt (Some (opt_float x)) = Some x"
  by (cases x) (simp_all add: v_torque_degrees_def optional_def opt_float_def check_def float_type_def)

lemma v_msrp_valid:
  "(\<And>m. x = Some m \<Longrightarrow> float_le (Fin 0) m) \<Longrightarrow>
   v_msrp_usd rt (Some (opt_float x)) = Some x"
  by (cases x) (simp_all add: v_msrp_usd_def optional_def opt_float_def check_def float_type_def)

lemma optional_float: "optional (float_type rt) (Some (opt_float x)) = Some x"
  by (cases x) (simp_all add: optional_def opt_float_def float_type_def)

lemma normalize_flex_S: "normalize_flex ''S'' = Inr STIFF"
  by (simp add: flex_eval)

lemma optional_str_SomeD:
  "optional str_type (Some g) = Some x \<Longrightarrow> g = PNone \<or> (\<exists>s. g = PStr s)"
  by (cases g) (simp_all add: optional_def str_type_def)

lemma optional_str_type:
  "g = PNone \<or> (\<exists>s. g = PStr s) \<Longrightarrow> \<exists>x. optional str_type (Some g) = Some x"
  by (auto simp: optional_def str_type_def)

text \<open>When the constructor accepts the arguments that \<^verbatim>\<open>normalize_row\<close> passes.\<close>

lemma ShaftSpec_init_row_iff:
  "(\<exists>s. ShaftSpec_init rt
       [(''manufacturer'', PStr mfr),
        (''model'', PStr m),
        (''generation'', g),
        (''club_type'', PStr (ClubType_value ctype)),
        (''flex'', PStr (Flex_value f)),
        (''weight_grams'', PFloat w),
        (''length_inches'', opt_float l),
        (''torque_degrees'', opt_float t),
        (''launch'', opt_enum LaunchProfile_value la),
        (''spin'', opt_enum SpinProfile_value sp),
        (''butt_diameter_inches'', opt_float bd),
        (''tip_diameter_inches'', opt_float td),
        (''tip_stiff'', opt_enum TipStiffness_value ts),
        (''kickpoint'', opt_enum Kickpoint_value kp),
        (''material'', PStr mat),
        (''msrp_usd'', opt_float ms)] = Inr s)
   \<longleftrightarrow>
     mfr \<noteq> [] \<and> m \<noteq> [] \<and> (g = PNone \<or> (\<exists>x. g = PStr x))
   \<and> float_lt (Fin 0) w \<and> float_lt w (Fin 300)
   \<and> (\<forall>x. l = Some x \<longrightarrow> float_lt (Fin 0) x \<and> float_lt x (Fin 60))
   \<and> (\<forall>x. t = Some x \<longrightarrow> float_le (Fin 0) x \<and> float_lt x (Fin 15))
   \<and> (\<forall>x. ms = Some x \<longrightarrow> float_le (Fin 0) x)"
  (is "(\<exists>s. ShaftSpec_init rt ?kw = Inr s) \<longleftrightarrow> ?C")
proof -
  have eq: "ShaftSpec_init rt ?kw = ShaftSpec_build
       (v_name (Some (PStr mfr)))
       (v_name (Some (PStr m)))
       (optional str_type (Some g))
       (Some ctype)
       (Some f)
       (v_weight_grams rt (Some (PFloat w)))
       (v_length_inches rt (Some (opt_float l)))
       (v_torque_degrees rt (Some (opt_float t)))
       (Some la) (Some sp) (Some bd) (Some td) (Some ts) (Some kp) (Some mat)
       (v_msrp_usd rt (Some (opt_float ms)))"
    by (simp add: ShaftSpec_init_def enum_ClubType enum_Flex enum_Launch enum_Spin
        enum_TipStiffness enum_Kickpoint optional_float with_default_str)
  show ?thesis
  proof
    assume "\<exists>s. ShaftSpec_init rt ?kw = Inr s"
    then obtain s where "ShaftSpec_init rt ?kw = Inr s" ..
    from ShaftSpec_build_Inr[OF this[unfolded eq]]
    have v: "v_name (Some (PStr mfr)) = Some (manufacturer s)"
      "v_name (Some (PStr m)) = Some (model s)"
      "optional str_type (Some g) = Some (generation s)"
      "v_weight_grams rt (Some (PFloat w)) = Some (weight_grams s)"
      "v_length_inches rt (Some (opt_float l)) = Some (length_inches s)"
      "v_torque_degrees rt (Some (opt_float t)) = Some (torque_degrees s)"
      "v_msrp_usd rt (Some (opt_float ms)) = Some (msrp_usd s)"
      by simp_all
    from v_name_SomeD[OF v(1)] have c1: "mfr \<noteq> []" by auto
    from v_name_SomeD[OF v(2)] have c2: "m \<noteq> []" by auto
    from optional_str_SomeD[OF v(3)] have c3: "g = PNone \<or> (\<exists>x. g = PStr x)" .
    from v_weight_SomeD[OF v(4)] v_weight_float[OF v(4)]
    have c4: "float_lt (Fin 0) w \<and> float_lt w (Fin 300)" by simp
    from v_opt_float(1)[OF v(5)] v(5)
    have "v_length_inches rt (Some (opt_float l)) = Some l" by simp
    then have c5: "\<forall>x. l = Some x \<longrightarrow> float_lt (Fin 0) x \<and> float_lt x (Fin 60)"
      using v_length_SomeD by blast
    from v_opt_float(2)[OF v(6)] v(6)
    have "v_torque_degrees rt (Some (opt_float t)) = Some t" by simp
    then have c6: "\<forall>x. t = Some x \<longrightarrow> float_le (Fin 0) x \<and> float_lt x (Fin 15)"
      using v_torque_SomeD by blast
    from v_opt_float(3)[OF v(7)] v(7)
    have "v_msrp_usd rt (Some (opt_float ms)) = Some ms" by simp
    then have c7: "\<forall>x. ms = Some x \<longrightarrow> float_le (Fin 0) x"
      using v_msrp_SomeD by blast
    from c1 c2 c3 c4 c5 c6 c7 show ?C by simp
  next
    assume c: ?C
    then have c1: "mfr \<noteq> []" and c2: "m \<noteq> []"
      and c3: "g = PNone \<or> (\<exists>x. g = PStr x)"
      and c4: "float_lt (Fin 0) w" "float_lt w (Fin 300)"
      and c5: "\<And>x. l = Some x \<Longrightarrow> float_lt (Fin 0) x \<and> float_lt x (Fin 60)"
      and c6: "\<And>x. t = Some x \<Longrightarrow> float_le (Fin 0) x \<and> float_lt x (Fin 15)"
      and c7: "\<And>x. ms = Some x \<Longrightarrow> float_le (Fin 0) x"
      by simp_all
    from optional_str_type[OF c3] obtain gx where g: "optional str_type (Some g) = Some gx" ..
    have fl: "v_length_inches rt (Some (opt_float l)) = Some l"
      by (rule v_length_valid) (rule c5)
    have ft: "v_torque_degrees rt (Some (opt_float t)) = Some t"
      by (rule v_torque_valid) (rule c6)
    have fm: "v_msrp_usd rt (Some (opt_float ms)) = Some ms"
      by (rule v_msrp_valid) (rule c7)
    show "\<exists>s. ShaftSpec_init rt ?kw = Inr s"
      unfolding eq v_name_nonempty[OF c1] v_name_nonempty[OF c2] g v_weight_valid[OF c4] fl ft fm
        ShaftSpec_build_Some
      by blast
  qed
qed

text \<open>A row normalizes exactly when its flex normalizes, its weight is a number in range,
  its length, torque and price are absent or in range, no other cell raises, and the
  constructor accepts the names and the generation.\<close>

lemma normalize_row_succeeds_iff:
  "(\<exists>s. normalize_row rt r mfr ctype = Inr s) \<longleftrightarrow>
     mfr \<noteq> [] \<and> row_model rt r \<noteq> []
   \<and> (row_generation rt r = PNone \<or> (\<exists>x. row_generation rt r = PStr x))
   \<and> (\<exists>f. normalize_flex (row_flex_raw rt r) = Inr f)
   \<and> (\<exists>w. safe_float rt
             (py_or [row_get r ''weight'', row_get r ''weight_grams'', row_get r ''wt''])
             = Inr (Some w)
          \<and> float_lt (Fin 0) w \<and> float_lt w (Fin 300))
   \<and> (\<exists>l. safe_float rt
             (py_or [row_get r ''length'', row_get r ''length_inches'', row_get r ''raw_length''])
             = Inr l
          \<and> (\<forall>x. l = Some x \<longrightarrow> float_lt (Fin 0) x \<and> float_lt x (Fin 60)))
   \<and> (\<exists>t. safe_float rt (py_or [row_get r ''torque'', row_get r ''torque_degrees'']) = Inr t
          \<and> (\<forall>x. t = Some x \<longrightarrow> float_le (Fin 0) x \<and> float_lt x (Fin 15)))
   \<and> (\<exists>x. normalize_launch (py_or [row_get r ''launch'', row_get r ''launch_profile''])
             = Inr x)
   \<and> (\<exists>x. normalize_spin (py_or [row_get r ''spin'', row_get r ''spin_profile'']) = Inr x)
   \<and> (\<exists>x. normalize_kickpoint
             (py_or [row_get r ''kickpoint'', row_get r ''kick_point'', row_get r ''bend_point''])
             = Inr x)
   \<and> (\<exists>x. normalize_tip_stiffness
             (py_or [row_get r ''tip_stiff'', row_get r ''tip_stiffness'', row_get r ''tip''])
             = Inr x)
   \<and> (\<exists>x. safe_float rt (py_or [row_get r ''butt_diameter'', row_get r ''butt'']) = Inr x)
   \<and> (\<exists>x. safe_float rt (py_or [row_get r ''tip_diameter'', row_get r ''tip_dia'']) = Inr x)
   \<and> (\<exists>m. safe_float rt (py_or [row_get r ''msrp'', row_get r ''msrp_usd'', row_get r ''price''])
             = Inr m
          \<and> (\<forall>x. m = Some x \<longrightarrow> float_le (Fin 0) x))"
  (is "?L \<longleftrightarrow> ?R")
proof
  assume ?L
  then obtain s where "normalize_row rt r mfr ctype = Inr s" ..
  from normalize_row_InrD[OF this]
  obtain f w l t la sp kp ts bd td ms where
    e: "normalize_flex (row_flex_raw rt r) = Inr f"
      "safe_float rt (py_or [row_get r ''weight'', row_get r ''weight_grams'', row_get r ''wt''])
        = Inr (Some w)"
      "safe_float rt
        (py_or [row_get r ''length'', row_get r ''length_inches'', row_get r ''raw_length''])
        = Inr l"
      "safe_float rt (py_or [row_get r ''torque'', row_get r ''torque_degrees'']) = Inr t"
      "normalize_launch (py_or [row_get r ''launch'', row_get r ''launch_profile'']) = Inr la"
      "normalize_spin (py_or [row_get r ''spin'', row_get r ''spin_profile'']) = Inr sp"
      "normalize_kickpoint
        (py_or [row_get r ''kickpoint'', row_get r ''kick_point'', row_get r ''bend_point''])
        = Inr kp"
      "normalize_tip_stiffness
        (py_or [row_get r ''tip_stiff'', row_get r ''tip_stiffness'', row_get r ''tip''])
        = Inr ts"
      "safe_float rt (py_or [row_get r ''butt_diameter'', row_get r ''butt'']) = Inr bd"
      "safe_float rt (py_or [row_get r ''tip_diameter'', row_get r ''tip_dia'']) = Inr td"
      "safe_float rt (py_or [row_get r ''msrp'', row_get r ''msrp_usd'', row_get r ''price''])
        = Inr ms"
    and i: "ShaftSpec_init rt
       [(''manufacturer'', PStr mfr),
        (''model'', PStr (row_model rt r)),
        (''generation'', row_generation rt r),
        (''club_type'', PStr (ClubType_value ctype)),
        (''flex'', PStr (Flex_value f)),
        (''weight_grams'', PFloat w),
        (''length_inches'', opt_float l),
        (''torque_degrees'', opt_float t),
        (''launch'', opt_enum LaunchProfile_value la),
        (''spin'', opt_enum SpinProfile_value sp),
        (''butt_diameter_inches'', opt_float bd),
        (''tip_diameter_inches'', opt_float td),
        (''tip_stiff'', opt_enum TipStiffness_value ts),
        (''kickpoint'', opt_enum Kickpoint_value kp),
        (''material'', PStr (row_material rt r)),
        (''msrp_usd'', opt_float ms)] = Inr s"
    by blast
  from i have "\<exists>s. ShaftSpec_init rt
       [(''manufacturer'', PStr mfr),
        (''model'', PStr (row_model rt r)),
        (''generation'', row_generation rt r),
        (''club_type'', PStr (ClubType_value ctype)),
        (''flex'', PStr (Flex_value f)),
        (''weight_grams'', PFloat w),
        (''length_inches'', opt_float l),
        (''torque_degrees'', opt_float t),
        (''launch'', opt_enum LaunchProfile_value la),
        (''spin'', opt_enum SpinProfile_value sp),
        (''butt_diameter_inches'', opt_float bd),
        (''tip_diameter_inches'', opt_float td),
        (''tip_stiff'', opt_enum TipStiffness_value ts),
        (''kickpoint'', opt_enum Kickpoint_value kp),
        (''material'', PStr (row_material rt r)),
        (''msrp_usd'', opt_float ms)] = Inr s" ..
  then have c: "mfr \<noteq> []" "row_model rt r \<noteq> []"
    "row_generation rt r = PNone \<or> (\<exists>x. row_generation rt r = PStr x)"
    "float_lt (Fin 0) w" "float_lt w (Fin 300)"
    "\<forall>x. l = Some x \<longrightarrow> float_lt (Fin 0) x \<and> float_lt x (Fin 60)"
    "\<forall>x. t = Some x \<longrightarrow> float_le (Fin 0) x \<and> float_lt x (Fin 15)"
    "\<forall>x. ms = Some x \<longrightarrow> float_le (Fin 0) x"
    unfolding ShaftSpec_init_row_iff by simp_all
  show ?R
    unfolding e using c by simp
next
  assume R: ?R
  then obtain f w l t la sp kp ts bd td ms where
    e: "normalize_flex (row_flex_raw rt r) = Inr f"
      "safe_float rt (py_or [row_get r ''weight'', row_get r ''weight_grams'', row_get r ''wt''])
        = Inr (Some w)"
      "safe_float rt
        (py_or [row_get r ''length'', row_get r ''length_inches'', row_get r ''raw_length''])
        = Inr l"
      "safe_float rt (py_or [row_get r ''torque'', row_get r ''torque_degrees'']) = Inr t"
      "normalize_launch (py_or [row_get r ''launch'', row_get r ''launch_profile'']) = Inr la"
      "normalize_spin (py_or [row_get r ''spin'', row_get r ''spin_profile'']) = Inr sp"
      "normalize_kickpoint
        (py_or [row_get r ''kickpoint'', row_get r ''kick_point'', row_get r ''bend_point''])
        = Inr kp"
      "normalize_tip_stiffness
        (py_or [row_get r ''tip_stiff'', row_get r ''tip_stiffness'', row_get r ''tip''])
        = Inr ts"
      "safe_float rt (py_or [row_get r ''butt_diameter'', row_get r ''butt'']) = Inr bd"
      "safe_float rt (py_or [row_get r ''tip_diameter'', row_get r ''tip_dia'']) = Inr td"
      "safe_float rt (py_or [row_get r ''msrp'', row_get r ''msrp_usd'', row_get r ''price''])
        = Inr ms"
    and c: "float_lt (Fin 0) w" "float_lt w (Fin 300)"
      "\<forall>x. l = Some x \<longrightarrow> float_lt (Fin 0) x \<and> float_lt x (Fin 60)"
      "\<forall>x. t = Some x \<longrightarrow> float_le (Fin 0) x \<and> float_lt x (Fin 15)"
      "\<forall>x. ms = Some x \<longrightarrow> float_le (Fin 0) x"
    by (elim conjE exE) blast
  from R have c0: "mfr \<noteq> []" "row_model rt r \<noteq> []"
    "row_generation rt r = PNone \<or> (\<exists>x. row_generation rt r = PStr x)"
    by blast+
  have "normalize_row rt r mfr ctype = ShaftSpec_init rt
       [(''manufacturer'', PStr mfr),
        (''model'', PStr (row_model rt r)),
        (''generation'', row_generation rt r),
        (''club_type'', PStr (ClubType_value ctype)),
        (''flex'', PStr (Flex_value f)),
        (''weight_grams'', PFloat w),
        (''length_inches'', opt_float l),
        (''torque_degrees'', opt_float t),
        (''launch'', opt_enum LaunchProfile_value la),
        (''spin'', opt_enum SpinProfile_value sp),
        (''butt_diameter_inches'', opt_float bd),
        (''tip_diameter_inches'', opt_float td),
        (''tip_stiff'', opt_enum TipStiffness_value ts),
        (''kickpoint'', opt_enum Kickpoint_value kp),
        (''material'', PStr (row_material rt r)),
        (''msrp_usd'', opt_float ms)]"
    unfolding normalize_row_def e by (simp only: bind_err_Inr option.case)
  moreover have "\<exists>s. ShaftSpec_init rt
       [(''manufacturer'', PStr mfr),
        (''model'', PStr (row_model rt r)),
        (''generation'', row_generation rt r),
        (''club_type'', PStr (ClubType_value ctype)),
        (''flex'', PStr (Flex_value f)),
        (''weight_grams'', PFloat w),
        (''length_inches'', opt_float l),
        (''torque_degrees'', opt_float t),
        (''launch'', opt_enum LaunchProfile_value la),
        (''spin'', opt_enum SpinProfile_value sp),
        (''butt_diameter_inches'', opt_float bd),
        (''tip_diameter_inches'', opt_float td),
        (''tip_stiff'', opt_enum TipStiffness_value ts),
        (''kickpoint'', opt_enum Kickpoint_value kp),
        (''material'', PStr (row_material rt r)),
        (''msrp_usd'', opt_float ms)] = Inr s"
    unfolding ShaftSpec_init_row_iff using c0 c by blast
  ultimately show ?L by simp
qed

lemma row_get_missing: "cell_missing r k \<Longrightarrow> row_get r k = PNone"
  by (auto simp: cell_missing_def row_get_def)

lemma row_get_same: "r' k = r k \<Longrightarrow> row_get r' k = row_get r k"
  by (simp add: row_get_def)

text \<open>The cells of the columns of a field are all missing, or all those of another row.\<close>

lemma field_columns_cases:
  assumes "(\<forall>k\<in>set K. cell_missing r' k) \<or> (\<forall>k\<in>set K. r' k = r k)"
  shows "(\<forall>k\<in>set K. row_get r' k = PNone) \<or> (\<forall>k\<in>set K. row_get r' k = row_get r k)"
  using assms row_get_missing row_get_same by blast

lemma other_field_columns_mem:
  "[''model'', ''shaft'', ''name'', ''product''] \<in> set other_field_columns"
  "[''generation'', ''gen'', ''version''] \<in> set other_field_columns"
  "[''flex'', ''stiffness'', ''Flex''] \<in> set other_field_columns"
  "[''length'', ''length_inches'', ''raw_length''] \<in> set other_field_columns"
  "[''torque'', ''torque_degrees''] \<in> set other_field_columns"
  "[''launch'', ''launch_profile''] \<in> set other_field_columns"
  "[''spin'', ''spin_profile''] \<in> set other_field_columns"
  "[''kickpoint'', ''kick_point'', ''bend_point''] \<in> set other_field_columns"
  "[''tip_stiff'', ''tip_stiffness'', ''tip''] \<in> set other_field_columns"
  "[''butt_diameter'', ''butt''] \<in> set other_field_columns"
  "[''tip_diameter'', ''tip_dia''] \<in> set other_field_columns"
  "[''msrp'', ''msrp_usd'', ''price''] \<in> set other_field_columns"
  unfolding other_field_columns_def list.set by (intro insertI1 insertI2)+

text \<open>A row that normalizes still normalizes when the cells of some of its fields other
  than the weight are taken away.\<close>

lemma normalize_row_fields_missing:
  assumes n: "\<exists>s. normalize_row rt r mfr ctype = Inr s"
    and w: "\<forall>k\<in>set weight_columns. r' k = r k"
    and o: "\<forall>K\<in>set other_field_columns.
              (\<forall>k\<in>set K. cell_missing r' k) \<or> (\<forall>k\<in>set K. r' k = r k)"
  shows "\<exists>s'. normalize_row rt r' mfr ctype = Inr s'"
proof -
  have f: "(\<forall>k\<in>set K. row_get r' k = PNone) \<or> (\<forall>k\<in>set K. row_get r' k = row_get r k)"
    if "K \<in> set other_field_columns" for K
    using o that by (intro field_columns_cases) blast
  have wt: "row_get r' ''weight'' = row_get r ''weight''"
    "row_get r' ''weight_grams'' = row_get r ''weight_grams''"
    "row_get r' ''wt'' = row_get r ''wt''"
    using w by (simp_all add: weight_columns_def row_get_def)
  have none: "safe_float rt PNone = Inr None" by (simp add: safe_float_absent)
  have prof: "normalize_launch PNone = Inr None" "normalize_spin PNone = Inr None"
    "normalize_kickpoint PNone = Inr None" "normalize_tip_stiffness PNone = Inr None"
    by (simp_all add: normalize_launch_def normalize_spin_def normalize_kickpoint_def
        normalize_tip_stiffness_def normalize_profile_def)
  from n have R: "mfr \<noteq> []" "row_model rt r \<noteq> []"
    "row_generation rt r = PNone \<or> (\<exists>x. row_generation rt r = PStr x)"
    "\<exists>f. normalize_flex (row_flex_raw rt r) = Inr f"
    "\<exists>w. safe_float rt
             (py_or [row_get r ''weight'', row_get r ''weight_grams'', row_get r ''wt''])
             = Inr (Some w)
          \<and> float_lt (Fin 0) w \<and> float_lt w (Fin 300)"
    "\<exists>l. safe_float rt
             (py_or [row_get r ''length'', row_get r ''length_inches'', row_get r ''raw_length''])
             = Inr l
          \<and> (\<forall>x. l = Some x \<longrightarrow> float_lt (Fin 0) x \<and> float_lt x (Fin 60))"
    "\<exists>t. safe_float rt (py_or [row_get r ''torque'', row_get r ''torque_degrees'']) = Inr t
          \<and> (\<forall>x. t = Some x \<longrightarrow> float_le (Fin 0) x \<and> float_lt x (Fin 15))"
    "\<exists>x. normalize_launch (py_or [row_get r ''launch'', row_get r ''launch_profile''])
             = Inr x"
    "\<exists>x. normalize_spin (py_or [row_get r ''spin'', row_get r ''spin_profile'']) = Inr x"
    "\<exists>x. normalize_kickpoint
             (py_or [row_get r ''kickpoint'', row_get r ''kick_point'', row_get r ''bend_point''])
             = Inr x"
    "\<exists>x. normalize_tip_stiffness
             (py_or [row_get r ''tip_stiff'', row_get r ''tip_stiffness'', row_get r ''tip''])
             = Inr x"
    "\<exists>x. safe_float rt (py_or [row_get r ''butt_diameter'', row_get r ''butt'']) = Inr x"
    "\<exists>x. safe_float rt (py_or [row_get r ''tip_diameter'', row_get r ''tip_dia'']) = Inr x"
    "\<exists>m. safe_float rt (py_or [row_get r ''msrp'', row_get r ''msrp_usd'', row_get r ''price''])
             = Inr m
          \<and> (\<forall>x. m = Some x \<longrightarrow> float_le (Fin 0) x)"
    unfolding normalize_row_succeeds_iff by blast+
  have c1: "row_model rt r' \<noteq> []"
  proof -
    have "(\<forall>k\<in>set [''model'', ''shaft'', ''name'', ''product'']. row_get r' k = PNone)
        \<or> (\<forall>k\<in>set [''model'', ''shaft'', ''name'', ''product'']. row_get r' k = row_get r k)"
      by (rule f) (simp only: other_field_columns_mem)
    then show ?thesis
    proof
      assume "\<forall>k\<in>set [''model'', ''shaft'', ''name'', ''product'']. row_get r' k = PNone"
      then show ?thesis by (simp add: row_model_def strip_def is_space_def)
    next
      assume "\<forall>k\<in>set [''model'', ''shaft'', ''name'', ''product''].
          row_get r' k = row_get r k"
      then have "row_model rt r' = row_model rt r" by (simp add: row_model_def)
      with R(2) show ?thesis by simp
    qed
  qed
  have c2: "row_generation rt r' = PNone \<or> (\<exists>x. row_generation rt r' = PStr x)"
  proof -
    have "(\<forall>k\<in>set [''generation'', ''gen'', ''version'']. row_get r' k = PNone)
        \<or> (\<forall>k\<in>set [''generation'', ''gen'', ''version'']. row_get r' k = row_get r k)"
      by (rule f) (simp only: other_field_columns_mem)
    then show ?thesis
    proof
      assume "\<forall>k\<in>set [''generation'', ''gen'', ''version'']. row_get r' k = PNone"
      then show ?thesis by (simp add: row_generation_def)
    next
      assume "\<forall>k\<in>set [''generation'', ''gen'', ''version'']. row_get r' k = row_get r k"
      then have "row_generation rt r' = row_generation rt r" by (simp add: row_generation_def)
      with R(3) show ?thesis by simp
    qed
  qed
  have c3: "\<exists>f. normalize_flex (row_flex_raw rt r') = Inr f"
  proof -
    have "(\<forall>k\<in>set [''flex'', ''stiffness'', ''Flex'']. row_get r' k = PNone)
        \<or> (\<forall>k\<in>set [''flex'', ''stiffness'', ''Flex'']. row_get r' k = row_get r k)"
      by (rule f) (simp only: other_field_columns_mem)
    then show ?thesis
    proof
      assume "\<forall>k\<in>set [''flex'', ''stiffness'', ''Flex'']. row_get r' k = PNone"
      then have "row_flex_raw rt r' = ''S''" by (simp add: row_flex_raw_def)
      then show ?thesis by (simp add: normalize_flex_S)
    next
      assume "\<forall>k\<in>set [''flex'', ''stiffness'', ''Flex'']. row_get r' k = row_get r k"
      then have "row_flex_raw rt r' = row_flex_raw rt r" by (simp add: row_flex_raw_def)
      with R(4) show ?thesis by simp
    qed
  qed
  have c4: "\<exists>w. safe_float rt
             (py_or [row_get r' ''weight'', row_get r' ''weight_grams'', row_get r' ''wt''])
             = Inr (Some w)
          \<and> float_lt (Fin 0) w \<and> float_lt w (Fin 300)"
    unfolding wt by (rule R(5))
  have c5: "\<exists>l. safe_float rt
             (py_or [row_get r' ''length'', row_get r' ''length_inches'', row_get r' ''raw_length''])
             = Inr l
          \<and> (\<forall>x. l = Some x \<longrightarrow> float_lt (Fin 0) x \<and> float_lt x (Fin 60))"
  proof -
    have "(\<forall>k\<in>set [''length'', ''length_inches'', ''raw_length'']. row_get r' k = PNone)
        \<or> (\<forall>k\<in>set [''length'', ''length_inches'', ''raw_length'']. row_get r' k = row_get r k)"
      by (rule f) (simp only: other_field_columns_mem)
    then show ?thesis
    proof
      assume "\<forall>k\<in>set [''length'', ''length_inches'', ''raw_length'']. row_get r' k = PNone"
      then show ?thesis by (simp add: none)
    next
      assume "\<forall>k\<in>set [''length'', ''length_inches'', ''raw_length''].
          row_get r' k = row_get r k"
      with R(6) show ?thesis by simp
    qed
  qed
  have c6: "\<exists>t. safe_float rt (py_or [row_get r' ''torque'', row_get r' ''torque_degrees''])
             = Inr t
          \<and> (\<forall>x. t = Some x \<longrightarrow> float_le (Fin 0) x \<and> float_lt x (Fin 15))"
  proof -
    have "(\<forall>k\<in>set [''torque'', ''torque_degrees'']. row_get r' k = PNone)
        \<or> (\<forall>k\<in>set [''torque'', ''torque_degrees'']. row_get r' k = row_get r k)"
      by (rule f) (simp only: other_field_columns_mem)
    then show ?thesis
    proof
      assume "\<forall>k\<in>set [''torque'', ''torque_degrees'']. row_get r' k = PNone"
      then show ?thesis by (simp add: none)
    next
      assume "\<forall>k\<in>set [''torque'', ''torque_degrees'']. row_get r' k = row_get r k"
      with R(7) show ?thesis by simp
    qed
  qed
  have c7: "\<exists>x. normalize_launch (py_or [row_get r' ''launch'', row_get r' ''launch_profile''])
             = Inr x"
  proof -
    have "(\<forall>k\<in>set [''launch'', ''launch_profile'']. row_get r' k = PNone)
        \<or> (\<forall>k\<in>set [''launch'', ''launch_profile'']. row_get r' k = row_get r k)"
      by (rule f) (simp only: other_field_columns_mem)
    then show ?thesis
    proof
      assume "\<forall>k\<in>set [''launch'', ''launch_profile'']. row_get r' k = PNone"
      then show ?thesis by (simp add: prof)
    next
      assume "\<forall>k\<in>set [''launch'', ''launch_profile'']. row_get r' k = row_get r k"
      with R(8) show ?thesis by simp
    qed
  qed
  have c8: "\<exists>x. normalize_spin (py_or [row_get r' ''spin'', row_get r' ''spin_profile''])
             = Inr x"
  proof -
    have "(\<forall>k\<in>set [''spin'', ''spin_profile'']. row_get r' k = PNone)
        \<or> (\<forall>k\<in>set [''spin'', ''spin_profile'']. row_get r' k = row_get r k)"
      by (rule f) (simp only: other_field_columns_mem)
    then show ?thesis
    proof
      assume "\<forall>k\<in>set [''spin'', ''spin_profile'']. row_get r' k = PNone"
      then show ?thesis by (simp add: prof)
    next
      assume "\<forall>k\<in>set [''spin'', ''spin_profile'']. row_get r' k = row_get r k"
      with R(9) show ?thesis by simp
    qed
  qed
  have c9: "\<exists>x. normalize_kickpoint
             (py_or [row_get r' ''kickpoint'', row_get r' ''kick_point'', row_get r' ''bend_point''])
             = Inr x"
  proof -
    have "(\<forall>k\<in>set [''kickpoint'', ''kick_point'', ''bend_point'']. row_get r' k = PNone)
        \<or> (\<forall>k\<in>set [''kickpoint'', ''kick_point'', ''bend_point'']. row_get r' k = row_get r k)"
      by (rule f) (simp only: other_field_columns_mem)
    then show ?thesis
    proof
      assume "\<forall>k\<in>set [''kickpoint'', ''kick_point'', ''bend_point'']. row_get r' k = PNone"
      then show ?thesis by (simp add: prof)
    next
      assume "\<forall>k\<in>set [''kickpoint'', ''kick_point'', ''bend_point''].
          row_get r' k = row_get r k"
      with R(10) show ?thesis by simp
    qed
  qed
  have c10: "\<exists>x. normalize_tip_stiffness
             (py_or [row_get r' ''tip_stiff'', row_get r' ''tip_stiffness'', row_get r' ''tip''])
             = Inr x"
  proof -
    have "(\<forall>k\<in>set [''tip_stiff'', ''tip_stiffness'', ''tip'']. row_get r' k = PNone)
        \<or> (\<forall>k\<in>set [''tip_stiff'', ''tip_stiffness'', ''tip'']. row_get r' k = row_get r k)"
      by (rule f) (simp only: other_field_columns_mem)
    then show ?thesis
    proof
      assume "\<forall>k\<in>set [''tip_stiff'', ''tip_stiffness'', ''tip'']. row_get r' k = PNone"
      then show ?thesis by (simp add: prof)
    next
      assume "\<forall>k\<in>set [''tip_stiff'', ''tip_stiffness'', ''tip''].
          row_get r' k = row_get r k"
      with R(11) show ?thesis by simp
    qed
  qed
  have c11: "\<exists>x. safe_float rt (py_or [row_get r' ''butt_diameter'', row_get r' ''butt''])
             = Inr x"
  proof -
    have "(\<forall>k\<in>set [''butt_diameter'', ''butt'']. row_get r' k = PNone)
        \<or> (\<forall>k\<in>set [''butt_diameter'', ''butt'']. row_get r' k = row_get r k)"
      by (rule f) (simp only: other_field_columns_mem)
    then show ?thesis
    proof
      assume "\<forall>k\<in>set [''butt_diameter'', ''butt'']. row_get r' k = PNone"
      then show ?thesis by (simp add: none)
    next
      assume "\<forall>k\<in>set [''butt_diameter'', ''butt'']. row_get r' k = row_get r k"
      with R(12) show ?thesis by simp
    qed
  qed
  have c12: "\<exists>x. safe_float rt (py_or [row_get r' ''tip_diameter'', row_get r' ''tip_dia''])
             = Inr x"
  proof -
    have "(\<forall>k\<in>set [''tip_diameter'', ''tip_dia'']. row_get r' k = PNone)
        \<or> (\<forall>k\<in>set [''tip_diameter'', ''tip_dia'']. row_get r' k = row_get r k)"
      by (rule f) (simp only: other_field_columns_mem)
    then show ?thesis
    proof
      assume "\<forall>k\<in>set [''tip_diameter'', ''tip_dia'']. row_get r' k = PNone"
      then show ?thesis by (simp add: none)
    next
      assume "\<forall>k\<in>set [''tip_diameter'', ''tip_dia'']. row_get r' k = row_get r k"
      with R(13) show ?thesis by simp
    qed
  qed
  have c13: "\<exists>m. safe_float rt
             (py_or [row_get r' ''msrp'', row_get r' ''msrp_usd'', row_get r' ''price''])
             = Inr m
          \<and> (\<forall>x. m = Some x \<longrightarrow> float_le (Fin 0) x)"
  proof -
    have "(\<forall>k\<in>set [''msrp'', ''msrp_usd'', ''price'']. row_get r' k = PNone)
        \<or> (\<forall>k\<in>set [''msrp'', ''msrp_usd'', ''price'']. row_get r' k = row_get r k)"
      by (rule f) (simp only: other_field_columns_mem)
    then show ?thesis
    proof
      assume "\<forall>k\<in>set [''msrp'', ''msrp_usd'', ''price'']. row_get r' k = PNone"
      then show ?thesis by (simp add: none)
    next
      assume "\<forall>k\<in>set [''msrp'', ''msrp_usd'', ''price'']. row_get r' k = row_get r k"
      with R(14) show ?thesis by simp
    qed
  qed
  show ?thesis
    unfolding normalize_row_succeeds_iff
    using R(1) c1 c2 c3 c4 c5 c6 c7 c8 c9 c10 c11 c12 c13 by blast
qed


subsection \<open>Rows without a weight\<close>

lemma normalize_flex_Inl:
  "normalize_flex raw = Inl e \<Longrightarrow>
   e = ValueError (''Cannot normalize flex: '' @ [CHR 0x27] @ raw @ [CHR 0x27])"
  by (auto simp: normalize_flex_def Let_def split: option.splits)

text \<open>A row that holds a weight and nothing else normalizes: the model is "Unknown", the
  flex is Stiff, the material is graphite and the optional fields are absent.\<close>

lemma normalize_row_weight_only:
  assumes "mfr \<noteq> []" and "float_lt (Fin 0) w" and "float_lt w (Fin 300)"
  shows "normalize_row rt [''weight'' \<mapsto> PFloat w] mfr ctype =
     Inr \<lparr> manufacturer = strip mfr, model = ''Unknown'', generation = None,
           club_type = ctype, flex = STIFF, weight_grams = w, length_inches = None,
           torque_degrees = None, launch = None, spin = None, butt_diameter_inches = None,
           tip_diameter_inches = None, tip_stiff = None, kickpoint = None,
           material = ''graphite'', msrp_usd = None \<rparr>"
proof -
  let ?r = "[''weight'' \<mapsto> PFloat w]"
  from assms(2) have nn: "w \<noteq> NaN" "w \<noteq> Fin 0" by (cases w; simp)+
  have g: "row_get ?r ''weight'' = PFloat w" "\<And>k. k \<noteq> ''weight'' \<Longrightarrow> row_get ?r k = PNone"
    by (simp_all add: row_get_def)
  have f: "normalize_flex (row_flex_raw rt ?r) = Inr STIFF"
    by (simp add: row_flex_raw_def g flex_eval)
  have m: "row_model rt ?r = ''Unknown''"
    by (simp add: row_model_def g strip_def is_space_def)
  have gen: "row_generation rt ?r = PNone" by (simp add: row_generation_def g)
  have mat: "row_material rt ?r = ''graphite''"
    by (simp add: row_material_def row_get_default_def lower_def strip_def is_space_def
        char_lower_def is_upper_def)
  have wt: "safe_float rt (py_or [row_get ?r ''weight'', row_get ?r ''weight_grams'', row_get ?r ''wt''])
      = Inr (Some w)"
    using nn by (simp add: g safe_float_def is_float_def)
  have none: "safe_float rt PNone = Inr None" by (simp add: safe_float_absent)
  have prof: "normalize_launch PNone = Inr None" "normalize_spin PNone = Inr None"
    "normalize_kickpoint PNone = Inr None" "normalize_tip_stiffness PNone = Inr None"
    by (simp_all add: normalize_launch_def normalize_spin_def normalize_kickpoint_def
        normalize_tip_stiffness_def normalize_profile_def)
  have "normalize_row rt ?r mfr ctype =
    ShaftSpec_init rt
       [(''manufacturer'', PStr mfr), (''model'', PStr ''Unknown''), (''generation'', PNone),
        (''club_type'', PStr (ClubType_value ctype)), (''flex'', PStr (Flex_value STIFF)),
        (''weight_grams'', PFloat w), (''length_inches'', PNone), (''torque_degrees'', PNone),
        (''launch'', PNone), (''spin'', PNone), (''butt_diameter_inches'', PNone),
        (''tip_diameter_inches'', PNone), (''tip_stiff'', PNone), (''kickpoint'', PNone),
        (''material'', PStr ''graphite''), (''msrp_usd'', PNone)]"
    unfolding normalize_row_def f m gen mat wt
    by (simp add: g none prof opt_float_def opt_enum_def cong: bind_err_weak_cong)
  also have "\<dots> = ShaftSpec_build
       (v_name (Some (PStr mfr)))
       (v_name (Some (PStr ''Unknown'')))
       (optional str_type (Some PNone))
       (required (enum_type ClubType_value ClubType_members) (Some (PStr (ClubType_value ctype))))
       (required (enum_type Flex_value Flex_members) (Some (PStr (Flex_value STIFF))))
       (v_weight_grams rt (Some (PFloat w)))
       (v_length_inches rt (Some PNone))
       (v_torque_degrees rt (Some PNone))
       (optional (enum_type LaunchProfile_value LaunchProfile_members) (Some PNone))
       (optional (enum_type SpinProfile_value SpinProfile_members) (Some PNone))
       (optional (float_type rt) (Some PNone))
       (optional (float_type rt) (Some PNone))
       (optional (enum_type TipStiffness_value TipStiffness_members) (Some PNone))
       (optional (enum_type Kickpoint_value Kickpoint_members) (Some PNone))
       (with_default ''graphite'' str_type (Some (PStr ''graphite'')))
       (v_msrp_usd rt (Some PNone))"
    by (simp add: ShaftSpec_init_def)
  also have "\<dots> = ShaftSpec_build (Some (strip mfr)) (Some ''Unknown'') (Some None) (Some ctype)
       (Some STIFF) (Some w) (Some None) (Some None) (Some None) (Some None) (Some None)
       (Some None) (Some None) (Some None) (Some ''graphite'') (Some None)"
  proof -
    have u: "v_name (Some (PStr ''Unknown'')) = Some ''Unknown''"
      by (simp add: v_name_def required_def check_def str_type_def strip_def is_space_def)
    have o: "optional f (Some PNone) = Some None" for f :: "pyval \<Rightarrow> 'b option"
      by (simp add: optional_def)
    have ol: "v_length_inches rt (Some PNone) = Some None"
      "v_torque_degrees rt (Some PNone) = Some None" "v_msrp_usd rt (Some PNone) = Some None"
      by (simp_all add: v_length_inches_def v_torque_degrees_def v_msrp_usd_def optional_def)
    show ?thesis
      unfolding v_name_nonempty[OF assms(1)] u o ol enum_ClubType enum_Flex
        v_weight_valid[OF assms(2,3)] with_default_str ..
  qed
  finally show ?thesis by (simp only: ShaftSpec_build_Some)
qed


text \<open>Rows of the example: the KBS Tour record of the tests with a weight of 120, the same
  row without a model column and with None in its flex cell, and with an empty flex cell,
  which is read as NaN and printed as "nan".\<close>

lemma row_kbs:
  "normalize_row rt [''model'' \<mapsto> PStr ''Tour'', ''flex'' \<mapsto> PStr ''Stiff'', ''weight'' \<mapsto> PFloat (Fin 120)]
     ''KBS'' IRON = Inr spec_kbs"
  by (simp add: row_simps flex_eval init_simps spec_kbs_def cong: bind_err_weak_cong)

lemma row_none_flex:
  "normalize_row rt [''flex'' \<mapsto> PNone, ''weight'' \<mapsto> PFloat (Fin 120)] ''KBS'' IRON
   = Inr (spec_kbs\<lparr>model := ''Unknown''\<rparr>)"
  by (simp add: row_simps flex_eval init_simps spec_kbs_def cong: bind_err_weak_cong)

lemma row_nan_flex:
  "normalize_row rt [''model'' \<mapsto> PStr ''Tour'', ''flex'' \<mapsto> PFloat NaN, ''weight'' \<mapsto> PFloat (Fin 120)]
     ''KBS'' IRON =
   Inl (ValueError (''Cannot normalize flex: '' @ [CHR 0x27] @ ''nan'' @ [CHR 0x27]))"
  by (simp add: row_simps flex_eval cong: bind_err_weak_cong)





subsection \<open>Falsy cells and aliases\<close>

lemma safe_float_zero:
  "numeric_zero v \<Longrightarrow> safe_float rt v = Inr (Some (Fin 0))"
  by (auto simp: numeric_zero_def safe_float_def is_float_def int_fits_float_def)

lemma numeric_zero_falsy: "numeric_zero v \<Longrightarrow> \<not> truthy v"
  by (auto simp: numeric_zero_def)

lemma row_flex_raw_default:
  assumes "\<not> truthy (row_get r ''flex'')" "\<not> truthy (row_get r ''stiffness'')"
    "\<not> truthy (row_get r ''Flex'')"
  shows "row_flex_raw rt r = ''S''"
  using assms by (simp add: row_flex_raw_def)

text \<open>
  Claim C10, amended. The aliases of a field are resolved by truthiness. For a row that
  normalizes: a numeric 0 in the torque column, with nothing usable in the torque\_degrees
  column, gives a record without torque; a numeric 0 in the msrp column, with a falsy
  msrp\_usd cell and nothing usable in the price column, gives a record without price; but
  a numeric 0 in the last alias of the chain (torque\_degrees, price), the earlier aliases
  being falsy, is the operand the chain returns and gives the value 0.0. An empty flex
  cell, the stiffness and Flex cells being falsy, is replaced by the default "S", which
  normalizes to Stiff, so the flex does not fail the row.
\<close>

theorem falsy_alias_resolution:
  "(normalize_row rt r mfr ctype = Inr s \<and> numeric_zero (row_get r ''torque'')
      \<and> absent_or_unparseable rt (row_get r ''torque_degrees'')
      \<longrightarrow> torque_degrees s = None)
   \<and> (normalize_row rt r mfr ctype = Inr s \<and> numeric_zero (row_get r ''msrp'')
      \<and> \<not> truthy (row_get r ''msrp_usd'') \<and> absent_or_unparseable rt (row_get r ''price'')
      \<longrightarrow> msrp_usd s = None)
   \<and> (normalize_row rt r mfr ctype = Inr s \<and> \<not> truthy (row_get r ''torque'')
      \<and> numeric_zero (row_get r ''torque_degrees'')
      \<longrightarrow> torque_degrees s = Some (Fin 0))
   \<and> (normalize_row rt r mfr ctype = Inr s \<and> \<not> truthy (row_get r ''msrp'')
      \<and> \<not> truthy (row_get r ''msrp_usd'') \<and> numeric_zero (row_get r ''price'')
      \<longrightarrow> msrp_usd s = Some (Fin 0))
   \<and> (row_get r ''flex'' = PStr [] \<and> \<not> truthy (row_get r ''stiffness'')
      \<and> \<not> truthy (row_get r ''Flex'')
      \<longrightarrow> normalize_flex (row_flex_raw rt r) = Inr STIFF
          \<and> (normalize_row rt r mfr ctype = Inr s \<longrightarrow> flex s = STIFF))"
proof (intro conjI impI)
  assume a: "normalize_row rt r mfr ctype = Inr s \<and> numeric_zero (row_get r ''torque'')
      \<and> absent_or_unparseable rt (row_get r ''torque_degrees'')"
  then have "py_or [row_get r ''torque'', row_get r ''torque_degrees''] = row_get r ''torque_degrees''"
    by (simp add: numeric_zero_falsy)
  moreover from a have "safe_float rt (row_get r ''torque_degrees'') = Inr None"
    by (simp add: safe_float_None_iff)
  ultimately show "torque_degrees s = None"
    using normalize_row_fields(3)[of rt r mfr ctype s] a by simp
next
  assume a: "normalize_row rt r mfr ctype = Inr s \<and> numeric_zero (row_get r ''msrp'')
      \<and> \<not> truthy (row_get r ''msrp_usd'') \<and> absent_or_unparseable rt (row_get r ''price'')"
  then have "py_or [row_get r ''msrp'', row_get r ''msrp_usd'', row_get r ''price''] =
      row_get r ''price''"
    by (simp add: numeric_zero_falsy)
  moreover from a have "safe_float rt (row_get r ''price'') = Inr None"
    by (simp add: safe_float_None_iff)
  ultimately show "msrp_usd s = None"
    using normalize_row_fields(4)[of rt r mfr ctype s] a by simp
next
  assume a: "normalize_row rt r mfr ctype = Inr s \<and> \<not> truthy (row_get r ''torque'')
      \<and> numeric_zero (row_get r ''torque_degrees'')"
  then have "py_or [row_get r ''torque'', row_get r ''torque_degrees''] = row_get r ''torque_degrees''"
    by simp
  moreover from a have "safe_float rt (row_get r ''torque_degrees'') = Inr (Some (Fin 0))"
    by (simp add: safe_float_zero)
  ultimately show "torque_degrees s = Some (Fin 0)"
    using normalize_row_fields(3)[of rt r mfr ctype s] a by simp
next
  assume a: "normalize_row rt r mfr ctype = Inr s \<and> \<not> truthy (row_get r ''msrp'')
      \<and> \<not> truthy (row_get r ''msrp_usd'') \<and> numeric_zero (row_get r ''price'')"
  then have "py_or [row_get r ''msrp'', row_get r ''msrp_usd'', row_get r ''price''] =
      row_get r ''price''"
    by simp
  moreover from a have "safe_float rt (row_get r ''price'') = Inr (Some (Fin 0))"
    by (simp add: safe_float_zero)
  ultimately show "msrp_usd s = Some (Fin 0)"
    using normalize_row_fields(4)[of rt r mfr ctype s] a by simp
next
  assume a: "row_get r ''flex'' = PStr [] \<and> \<not> truthy (row_get r ''stiffness'')
      \<and> \<not> truthy (row_get r ''Flex'')"
  then have "row_flex_raw rt r = ''S''" by (simp add: row_flex_raw_default)
  then show f: "normalize_flex (row_flex_raw rt r) = Inr STIFF" by (simp add: normalize_flex_S)
  assume "normalize_row rt r mfr ctype = Inr s"
  from normalize_row_fields(1)[OF this] f show "flex s = STIFF" by simp
qed

text \<open>Rows of the example: the KBS Tour record of the tests with a weight of 120.\<close>

lemma row_zero_torque:
  "normalize_row rt [''model'' \<mapsto> PStr ''Tour'', ''weight'' \<mapsto> PInt 120, ''torque'' \<mapsto> PInt 0]
     ''KBS'' IRON = Inr spec_kbs"
  by (simp add: row_simps flex_eval init_simps spec_kbs_def cong: bind_err_weak_cong)

lemma row_zero_price:
  "normalize_row rt [''model'' \<mapsto> PStr ''Tour'', ''weight'' \<mapsto> PInt 120, ''price'' \<mapsto> PInt 0]
     ''KBS'' IRON = Inr (spec_kbs\<lparr>msrp_usd := Some (Fin 0)\<rparr>)"
  by (simp add: row_simps flex_eval init_simps spec_kbs_def cong: bind_err_weak_cong)

lemma row_empty_flex:
  "normalize_row rt [''model'' \<mapsto> PStr ''Tour'', ''weight'' \<mapsto> PInt 120, ''flex'' \<mapsto> PStr []]
     ''KBS'' IRON = Inr spec_kbs"
  by (simp add: row_simps flex_eval init_simps spec_kbs_def cong: bind_err_weak_cong)

theorem falsy_alias_resolution_witness:
  "\<forall>rt.
     normalize_row rt [''model'' \<mapsto> PStr ''Tour'', ''weight'' \<mapsto> PInt 120, ''torque'' \<mapsto> PInt 0]
       ''KBS'' IRON = Inr spec_kbs
   \<and> numeric_zero (row_get [''model'' \<mapsto> PStr ''Tour'', ''weight'' \<mapsto> PInt 120, ''torque'' \<mapsto> PInt 0] ''torque'')
   \<and> absent_or_unparseable rt
       (row_get [''model'' \<mapsto> PStr ''Tour'', ''weight'' \<mapsto> PInt 120, ''torque'' \<mapsto> PInt 0] ''torque_degrees'')
   \<and> torque_degrees spec_kbs = None
   \<and> normalize_row rt [''model'' \<mapsto> PStr ''Tour'', ''weight'' \<mapsto> PInt 120, ''price'' \<mapsto> PInt 0]
       ''KBS'' IRON = Inr (spec_kbs\<lparr>msrp_usd := Some (Fin 0)\<rparr>)
   \<and> numeric_zero (row_get [''model'' \<mapsto> PStr ''Tour'', ''weight'' \<mapsto> PInt 120, ''price'' \<mapsto> PInt 0] ''price'')
   \<and> msrp_usd (spec_kbs\<lparr>msrp_usd := Some (Fin 0)\<rparr>) = Some (Fin 0)
   \<and> normalize_row rt [''model'' \<mapsto> PStr ''Tour'', ''weight'' \<mapsto> PInt 120, ''flex'' \<mapsto> PStr []]
       ''KBS'' IRON = Inr spec_kbs
   \<and> row_get [''model'' \<mapsto> PStr ''Tour'', ''weight'' \<mapsto> PInt 120, ''flex'' \<mapsto> PStr []] ''flex'' = PStr []
   \<and> flex spec_kbs = STIFF"
proof
  fix rt
  let ?a = "[''model'' \<mapsto> PStr ''Tour'', ''weight'' \<mapsto> PInt 120, ''torque'' \<mapsto> PInt 0]"
  let ?b = "[''model'' \<mapsto> PStr ''Tour'', ''weight'' \<mapsto> PInt 120, ''price'' \<mapsto> PInt 0]"
  let ?c = "[''model'' \<mapsto> PStr ''Tour'', ''weight'' \<mapsto> PInt 120, ''flex'' \<mapsto> PStr []]"
  have a: "numeric_zero (row_get ?a ''torque'')"
    "absent_or_unparseable rt (row_get ?a ''torque_degrees'')"
    by (simp_all add: numeric_zero_def absent_or_unparseable_def row_get_def)
  have b: "\<not> truthy (row_get ?b ''msrp'')" "\<not> truthy (row_get ?b ''msrp_usd'')"
    "numeric_zero (row_get ?b ''price'')"
    by (simp_all add: numeric_zero_def row_get_def)
  have c: "row_get ?c ''flex'' = PStr []" "\<not> truthy (row_get ?c ''stiffness'')"
    "\<not> truthy (row_get ?c ''Flex'')"
    by (simp_all add: row_get_def)
  from falsy_alias_resolution[of rt ?a "''KBS''" IRON spec_kbs] row_zero_torque[of rt] a
  have ra: "torque_degrees spec_kbs = None" by blast
  from falsy_alias_resolution[of rt ?b "''KBS''" IRON "spec_kbs\<lparr>msrp_usd := Some (Fin 0)\<rparr>"]
    row_zero_price[of rt] b
  have rb: "msrp_usd (spec_kbs\<lparr>msrp_usd := Some (Fin 0)\<rparr>) = Some (Fin 0)" by blast
  from falsy_alias_resolution[of rt ?c "''KBS''" IRON spec_kbs] row_empty_flex[of rt] c
  have rc: "flex spec_kbs = STIFF" by blast
  from a b c ra rb rc row_zero_torque[of rt] row_zero_price[of rt] row_empty_flex[of rt]
  show "normalize_row rt ?a ''KBS'' IRON = Inr spec_kbs
   \<and> numeric_zero (row_get ?a ''torque'')
   \<and> absent_or_unparseable rt (row_get ?a ''torque_degrees'')
   \<and> torque_degrees spec_kbs = None
   \<and> normalize_row rt ?b ''KBS'' IRON = Inr (spec_kbs\<lparr>msrp_usd := Some (Fin 0)\<rparr>)
   \<and> numeric_zero (row_get ?b ''price'')
   \<and> msrp_usd (spec_kbs\<lparr>msrp_usd := Some (Fin 0)\<rparr>) = Some (Fin 0)
   \<and> normalize_row rt ?c ''KBS'' IRON = Inr spec_kbs
   \<and> row_get ?c ''flex'' = PStr []
   \<and> flex spec_kbs = STIFF"
    by blast
qed

text \<open>The claim as stated fails for the price column: by \<open>row_zero_price\<close> a row whose
  only price cell is the int 0 gives a record whose price is 0.0.\<close>

theorem zero_price_counterexample:
  "\<not> (\<forall>rt r mfr ctype s.
        normalize_row rt r mfr ctype = Inr s \<and> numeric_zero (row_get r ''price'')
        \<longrightarrow> msrp_usd s = None)"
proof
  assume c: "\<forall>rt r mfr ctype s.
        normalize_row rt r mfr ctype = Inr s \<and> numeric_zero (row_get r ''price'')
        \<longrightarrow> msrp_usd s = None"
  let ?b = "[''model'' \<mapsto> PStr ''Tour'', ''weight'' \<mapsto> PInt 120, ''price'' \<mapsto> PInt 0]"
  have "numeric_zero (row_get ?b ''price'')" by (simp add: numeric_zero_def row_get_def)
  with c row_zero_price[of undefined]
  have "msrp_usd (spec_kbs\<lparr>msrp_usd := Some (Fin 0)\<rparr>) = None" by blast
  then show False by simp
qed


subsection \<open>The batch\<close>

lemma normalized_rows_Cons:
  "normalized_rows rt mfr ctype ((idx, r) # df) =
     (case normalize_row rt r mfr ctype of Inr spec \<Rightarrow> [spec] | Inl e \<Rightarrow> []) @
     normalized_rows rt mfr ctype df"
  by (simp add: normalized_rows_def)

lemma failed_rows_Cons:
  "failed_rows rt mfr ctype ((idx, r) # df) =
     (case normalize_row rt r mfr ctype of Inr spec \<Rightarrow> [] | Inl e \<Rightarrow> [(idx, e)]) @
     failed_rows rt mfr ctype df"
  by (simp add: failed_rows_def)

lemma normalize_loop_caught:
  assumes "\<forall>(idx, r) \<in> set df. \<forall>e. normalize_row rt r mfr ctype = Inl e \<longrightarrow>
             is_ValueError e \<or> is_KeyError e"
  shows "normalize_loop rt mfr ctype df specs errors =
         Inr (specs @ normalized_rows rt mfr ctype df, errors @ failed_rows rt mfr ctype df)"
  using assms
proof (induction df arbitrary: specs errors)
  case Nil
  then show ?case by (simp add: normalized_rows_def failed_rows_def)
next
  case (Cons p df)
  obtain idx r where p: "p = (idx, r)" by (cases p)
  from Cons.prems have rest: "\<forall>(idx, r) \<in> set df. \<forall>e. normalize_row rt r mfr ctype = Inl e \<longrightarrow>
             is_ValueError e \<or> is_KeyError e" by simp
  show ?case
  proof (cases "normalize_row rt r mfr ctype")
    case (Inl e)
    with Cons.prems p have "is_ValueError e \<or> is_KeyError e" by simp
    with Inl p Cons.IH[OF rest, of specs "errors @ [(idx, e)]"] show ?thesis
      by (simp add: normalized_rows_Cons failed_rows_Cons)
  next
    case (Inr spec)
    with p Cons.IH[OF rest, of "specs @ [spec]" errors] show ?thesis
      by (simp add: normalized_rows_Cons failed_rows_Cons)
  qed
qed

text \<open>
  Claim C4, amended. For every frame whose rows raise nothing but ValueError (the missing
  weight, the flex that does not normalize, the ValidationError of the schema) or
  KeyError, \<^verbatim>\<open>normalize_dataframe\<close> returns: the result is the list of the records of
  the rows that normalize, in the order of the rows, and every failing row is recorded with
  its index and its exception. An exception of another class is not caught by the
  \<^verbatim>\<open>except (ValueError, KeyError)\<close>; the amended claim says nothing about such frames.
\<close>

theorem normalize_dataframe_spec:
  assumes "\<forall>(idx, r) \<in> set df. \<forall>e. normalize_row rt r mfr ctype = Inl e \<longrightarrow>
             is_ValueError e \<or> is_KeyError e"
  shows "normalize_dataframe rt df mfr ctype =
         Inr (normalized_rows rt mfr ctype df, failed_rows rt mfr ctype df)"
  unfolding normalize_dataframe_def using normalize_loop_caught[OF assms, of "[]" "[]"] by simp

lemma row_no_weight:
  "normalize_row rt [''model'' \<mapsto> PStr ''Tour'', ''flex'' \<mapsto> PStr ''S'', ''weight'' \<mapsto> PFloat NaN]
     ''KBS'' IRON = Inl (ValueError ''Missing weight for Tour'')"
  by (simp add: row_simps flex_eval cong: bind_err_weak_cong)

lemma row_bad_flex:
  "normalize_row rt [''model'' \<mapsto> PStr ''Tour'', ''flex'' \<mapsto> PStr ''banana'', ''weight'' \<mapsto> PFloat (Fin 120)]
     ''KBS'' IRON =
   Inl (ValueError (''Cannot normalize flex: '' @ [CHR 0x27] @ ''banana'' @ [CHR 0x27]))"
  by (simp add: row_simps flex_eval cong: bind_err_weak_cong)

lemma row_bad_weight:
  "normalize_row rt [''model'' \<mapsto> PStr ''Tour'', ''flex'' \<mapsto> PStr ''Stiff'', ''weight'' \<mapsto> PFloat (Fin 320)]
     ''KBS'' IRON = Inl (ValidationError [''weight_grams''])"
  by (simp add: row_simps flex_eval init_simps cong: bind_err_weak_cong)

lemma row_numeric_launch:
  "normalize_row rt [''model'' \<mapsto> PStr ''Tour'', ''flex'' \<mapsto> PStr ''Stiff'', ''weight'' \<mapsto> PFloat (Fin 120),
       ''launch'' \<mapsto> PInt 5]
     ''KBS'' IRON = Inl AttributeError"
  by (simp add: row_simps flex_eval cong: bind_err_weak_cong)

theorem normalize_dataframe_spec_witness:
  "\<forall>rt.
    (\<forall>(idx, r) \<in> set frame_kbs.
       \<forall>e. normalize_row rt r ''KBS'' IRON = Inl e \<longrightarrow> is_ValueError e \<or> is_KeyError e)
    \<and> normalize_dataframe rt frame_kbs ''KBS'' IRON =
      Inr ([spec_kbs],
           [(0, ValueError ''Missing weight for Tour''),
            (2, ValueError (''Cannot normalize flex: '' @ [CHR 0x27] @ ''banana'' @ [CHR 0x27])),
            (3, ValidationError [''weight_grams''])])"
proof
  fix rt
  have h: "\<forall>(idx, r) \<in> set frame_kbs.
       \<forall>e. normalize_row rt r ''KBS'' IRON = Inl e \<longrightarrow> is_ValueError e \<or> is_KeyError e"
    unfolding frame_kbs_def
    by (auto simp only: list.set ball_simps prod.case row_kbs row_no_weight row_bad_flex
        row_bad_weight sum.inject sum.distinct is_ValueError.simps simp_thms)
  have n: "normalized_rows rt ''KBS'' IRON frame_kbs = [spec_kbs]"
    unfolding frame_kbs_def
    by (simp only: normalized_rows_Cons row_kbs row_no_weight row_bad_flex row_bad_weight
        sum.case append.simps) (simp add: normalized_rows_def)
  have f: "failed_rows rt ''KBS'' IRON frame_kbs =
      [(0, ValueError ''Missing weight for Tour''),
       (2, ValueError (''Cannot normalize flex: '' @ [CHR 0x27] @ ''banana'' @ [CHR 0x27])),
       (3, ValidationError [''weight_grams''])]"
    unfolding frame_kbs_def
    by (simp only: failed_rows_Cons row_kbs row_no_weight row_bad_flex row_bad_weight
        sum.case append.simps) (simp add: failed_rows_def)
  from normalize_dataframe_spec[OF h] n f
  have "normalize_dataframe rt frame_kbs ''KBS'' IRON =
      Inr ([spec_kbs],
           [(0, ValueError ''Missing weight for Tour''),
            (2, ValueError (''Cannot normalize flex: '' @ [CHR 0x27] @ ''banana'' @ [CHR 0x27])),
            (3, ValidationError [''weight_grams''])])"
    by simp
  with h show "(\<forall>(idx, r) \<in> set frame_kbs.
       \<forall>e. normalize_row rt r ''KBS'' IRON = Inl e \<longrightarrow> is_ValueError e \<or> is_KeyError e)
    \<and> normalize_dataframe rt frame_kbs ''KBS'' IRON =
      Inr ([spec_kbs],
           [(0, ValueError ''Missing weight for Tour''),
            (2, ValueError (''Cannot normalize flex: '' @ [CHR 0x27] @ ''banana'' @ [CHR 0x27])),
            (3, ValidationError [''weight_grams''])])"
    by blast
qed

text \<open>A number in the launch column makes \<^verbatim>\<open>raw.strip()\<close> raise AttributeError; the
  exception leaves \<^verbatim>\<open>normalize_dataframe\<close>, and the second row, which normalizes, is lost
  with it.\<close>

lemma dataframe_numeric_launch:
  "normalize_dataframe rt frame_numeric_launch ''KBS'' IRON = Inl AttributeError"
  unfolding normalize_dataframe_def frame_numeric_launch_def
  by (simp only: normalize_loop.simps row_numeric_launch sum.case is_ValueError.simps
      is_KeyError.simps simp_thms if_False)

theorem normalize_dataframe_abort_counterexample:
  "\<not> (\<forall>rt df mfr ctype. \<exists>specs errors.
        normalize_dataframe rt df mfr ctype = Inr (specs, errors))"
proof
  assume "\<forall>rt df mfr ctype. \<exists>specs errors.
        normalize_dataframe rt df mfr ctype = Inr (specs, errors)"
  then obtain specs errors where
    "normalize_dataframe undefined frame_numeric_launch ''KBS'' IRON = Inr (specs, errors)"
    by blast
  then show False by (simp add: dataframe_numeric_launch)
qed

text \<open>The function fails to return only through a row whose exception the
  \<^verbatim>\<open>except\<close> clause does not catch.\<close>

lemma normalize_loop_Inl:
  "normalize_loop rt mfr ctype df specs errors = Inl e \<Longrightarrow>
   \<exists>(idx, r) \<in> set df. normalize_row rt r mfr ctype = Inl e
      \<and> \<not> (is_ValueError e \<or> is_KeyError e)"
proof (induction df arbitrary: specs errors)
  case Nil
  then show ?case by simp
next
  case (Cons p df)
  obtain idx r where p: "p = (idx, r)" by (cases p)
  show ?case
  proof (cases "normalize_row rt r mfr ctype")
    case (Inl e')
    show ?thesis
    proof (cases "is_ValueError e' \<or> is_KeyError e'")
      case True
      with Cons.prems p Inl
      have "normalize_loop rt mfr ctype df specs (errors @ [(idx, e')]) = Inl e" by simp
      from Cons.IH[OF this] show ?thesis by auto
    next
      case False
      with Cons.prems p Inl have "e' = e" by simp
      with False Inl p show ?thesis by auto
    qed
  next
    case (Inr spec)
    with Cons.prems p have "normalize_loop rt mfr ctype df (specs @ [spec]) errors = Inl e"
      by simp
    from Cons.IH[OF this] show ?thesis by auto
  qed
qed

lemma normalize_dataframe_Inl:
  "normalize_dataframe rt df mfr ctype = Inl e \<Longrightarrow>
   \<exists>(idx, r) \<in> set df. normalize_row rt r mfr ctype = Inl e
      \<and> \<not> (is_ValueError e \<or> is_KeyError e)"
  unfolding normalize_dataframe_def by (rule normalize_loop_Inl)


subsection \<open>Construction\<close>

text \<open>
  Claim C1. The construction of a ShaftSpec is to fail when the manufacturer or the model
  is empty after trimming. The length check of \<^verbatim>\<open>min_length=1\<close> runs on the string as
  given and the validator that trims runs after it: a manufacturer of three spaces
  passes the check and is stored as the empty string. The construction fails for the
  weights 0 and -10 and succeeds for 62.0 (\<open>ShaftSpec_init_weight_examples\<close>), and an
  empty manufacturer is refused (\<open>ShaftSpec_init_empty_manufacturer\<close>).
\<close>

theorem ShaftSpec_init_blank_manufacturer:
  "ShaftSpec_init rt
     [(''manufacturer'', PStr ''   ''), (''model'', PStr ''Tour''),
      (''club_type'', PStr (ClubType_value IRON)), (''flex'', PStr (Flex_value STIFF)),
      (''weight_grams'', PFloat (Fin 120))]
   = Inr (spec_kbs\<lparr>manufacturer := []\<rparr>)"
  by (simp add: init_simps spec_kbs_def)

lemma ShaftSpec_init_weight_examples:
  "ShaftSpec_init rt
     [(''manufacturer'', PStr ''Test''), (''model'', PStr ''Test''),
      (''club_type'', PStr (ClubType_value WOODS)), (''flex'', PStr (Flex_value STIFF)),
      (''weight_grams'', PInt 0)] = Inl (ValidationError [''weight_grams''])"
  "ShaftSpec_init rt
     [(''manufacturer'', PStr ''Test''), (''model'', PStr ''Test''),
      (''club_type'', PStr (ClubType_value WOODS)), (''flex'', PStr (Flex_value STIFF)),
      (''weight_grams'', PInt (- 10))] = Inl (ValidationError [''weight_grams''])"
  "ShaftSpec_init rt
     [(''manufacturer'', PStr ''Project X''), (''model'', PStr ''HZRDUS Black''),
      (''club_type'', PStr (ClubType_value WOODS)), (''flex'', PStr (Flex_value STIFF)),
      (''weight_grams'', PFloat (Fin 62)), (''torque_degrees'', PFloat (Fin 3.5)),
      (''launch'', PStr (LaunchProfile_value LAUNCH_LOW))] = Inr spec_hzrdus"
  by (simp_all add: init_simps spec_hzrdus_def)

lemma ShaftSpec_init_empty_manufacturer:
  "ShaftSpec_init rt
     [(''manufacturer'', PStr []), (''model'', PStr ''Tour''),
      (''club_type'', PStr (ClubType_value IRON)), (''flex'', PStr (Flex_value STIFF)),
      (''weight_grams'', PFloat (Fin 120))]
   = Inl (ValidationError [''manufacturer''])"
  by (simp add: init_simps)

text \<open>Every record that the constructor returns has names that are the trimmed form of a
  non-empty string, and numbers within the bounds of the schema: when one of these
  constraints is violated the construction fails.\<close>

lemma ShaftSpec_init_constraints:
  assumes "ShaftSpec_init rt kwargs = Inr s"
  shows "(\<exists>raw. map_of kwargs ''manufacturer'' = Some (PStr raw) \<and> raw \<noteq> []
            \<and> manufacturer s = strip raw)"
    and "(\<exists>raw. map_of kwargs ''model'' = Some (PStr raw) \<and> raw \<noteq> [] \<and> model s = strip raw)"
    and "float_lt (Fin 0) (weight_grams s) \<and> float_lt (weight_grams s) (Fin 300)"
    and "\<forall>l. length_inches s = Some l \<longrightarrow> float_lt (Fin 0) l \<and> float_lt l (Fin 60)"
    and "\<forall>t. torque_degrees s = Some t \<longrightarrow> float_le (Fin 0) t \<and> float_lt t (Fin 15)"
    and "\<forall>m. msrp_usd s = Some m \<longrightarrow> float_le (Fin 0) m"
proof -
  from ShaftSpec_build_Inr[OF assms[unfolded ShaftSpec_init_def]]
  have f: "v_name (map_of kwargs ''manufacturer'') = Some (manufacturer s)"
    "v_name (map_of kwargs ''model'') = Some (model s)"
    "v_weight_grams rt (map_of kwargs ''weight_grams'') = Some (weight_grams s)"
    "v_length_inches rt (map_of kwargs ''length_inches'') = Some (length_inches s)"
    "v_torque_degrees rt (map_of kwargs ''torque_degrees'') = Some (torque_degrees s)"
    "v_msrp_usd rt (map_of kwargs ''msrp_usd'') = Some (msrp_usd s)"
    by simp_all
  from v_name_SomeD[OF f(1)]
  show "\<exists>raw. map_of kwargs ''manufacturer'' = Some (PStr raw) \<and> raw \<noteq> []
      \<and> manufacturer s = strip raw" .
  from v_name_SomeD[OF f(2)]
  show "\<exists>raw. map_of kwargs ''model'' = Some (PStr raw) \<and> raw \<noteq> [] \<and> model s = strip raw" .
  from v_weight_SomeD[OF f(3)]
  show "float_lt (Fin 0) (weight_grams s) \<and> float_lt (weight_grams s) (Fin 300)" .
  show "\<forall>l. length_inches s = Some l \<longrightarrow> float_lt (Fin 0) l \<and> float_lt l (Fin 60)"
    using v_length_SomeD f(4) by metis
  show "\<forall>t. torque_degrees s = Some t \<longrightarrow> float_le (Fin 0) t \<and> float_lt t (Fin 15)"
    using v_torque_SomeD f(5) by metis
  show "\<forall>m. msrp_usd s = Some m \<longrightarrow> float_le (Fin 0) m"
    using v_msrp_SomeD f(6) by metis
qed


subsection \<open>The round trip of the store\<close>

lemma v_name_valid: "m \<noteq> [] \<Longrightarrow> strip m = m \<Longrightarrow> v_name (Some (PStr m)) = Some m"
  by (cases m) (simp_all add: v_name_def required_def check_def str_type_def)

lemma init_model_dump:
  assumes "valid_spec s"
  shows "ShaftSpec_init rt (model_dump_json s) = Inr s"
proof -
  from assms have v: "manufacturer s \<noteq> []" "strip (manufacturer s) = manufacturer s"
    "model s \<noteq> []" "strip (model s) = model s"
    "float_lt (Fin 0) (weight_grams s)" "float_lt (weight_grams s) (Fin 300)"
    "\<And>l. length_inches s = Some l \<Longrightarrow> float_lt (Fin 0) l \<and> float_lt l (Fin 60)"
    "\<And>t. torque_degrees s = Some t \<Longrightarrow> float_le (Fin 0) t \<and> float_lt t (Fin 15)"
    "\<And>m. msrp_usd s = Some m \<Longrightarrow> float_le (Fin 0) m"
    by (simp_all add: valid_spec_def)
  have "ShaftSpec_init rt (model_dump_json s) =
    ShaftSpec_build
       (v_name (Some (PStr (manufacturer s))))
       (v_name (Some (PStr (model s))))
       (optional str_type (Some (case generation s of None \<Rightarrow> PNone | Some g \<Rightarrow> PStr g)))
       (required (enum_type ClubType_value ClubType_members)
          (Some (PStr (ClubType_value (club_type s)))))
       (required (enum_type Flex_value Flex_members) (Some (PStr (Flex_value (flex s)))))
       (v_weight_grams rt (Some (PFloat (weight_grams s))))
       (v_length_inches rt (Some (opt_float (length_inches s))))
       (v_torque_degrees rt (Some (opt_float (torque_degrees s))))
       (optional (enum_type LaunchProfile_value LaunchProfile_members)
          (Some (opt_enum LaunchProfile_value (launch s))))
       (optional (enum_type SpinProfile_value SpinProfile_members)
          (Some (opt_enum SpinProfile_value (spin s))))
       (optional (float_type rt) (Some (opt_float (butt_diameter_inches s))))
       (optional (float_type rt) (Some (opt_float (tip_diameter_inches s))))
       (optional (enum_type TipStiffness_value TipStiffness_members)
          (Some (opt_enum TipStiffness_value (tip_stiff s))))
       (optional (enum_type Kickpoint_value Kickpoint_members)
          (Some (opt_enum Kickpoint_value (kickpoint s))))
       (with_default ''graphite'' str_type (Some (PStr (material s))))
       (v_msrp_usd rt (Some (opt_float (msrp_usd s))))"
    by (simp add: ShaftSpec_init_def model_dump_json_def)
  also have "\<dots> = Inr \<lparr> manufacturer = manufacturer s, model = model s,
         generation = generation s, club_type = club_type s, flex = flex s,
         weight_grams = weight_grams s, length_inches = length_inches s,
         torque_degrees = torque_degrees s, launch = launch s, spin = spin s,
         butt_diameter_inches = butt_diameter_inches s,
         tip_diameter_inches = tip_diameter_inches s, tip_stiff = tip_stiff s,
         kickpoint = kickpoint s, material = material s, msrp_usd = msrp_usd s \<rparr>"
  proof -
    have fl: "v_length_inches rt (Some (opt_float (length_inches s))) = Some (length_inches s)"
      by (rule v_length_valid) (rule v(7))
    have ft: "v_torque_degrees rt (Some (opt_float (torque_degrees s))) = Some (torque_degrees s)"
      by (rule v_torque_valid) (rule v(8))
    have fm: "v_msrp_usd rt (Some (opt_float (msrp_usd s))) = Some (msrp_usd s)"
      by (rule v_msrp_valid) (rule v(9))
    show ?thesis
      unfolding v_name_valid[OF v(1,2)] v_name_valid[OF v(3,4)] optional_str enum_ClubType
        enum_Flex v_weight_valid[OF v(5,6)] fl ft fm enum_Launch enum_Spin optional_float
        enum_TipStiffness enum_Kickpoint with_default_str
      by (rule ShaftSpec_build_Some)
  qed
  also have "\<dots> = Inr s" by simp
  finally show ?thesis .
qed

lemma map_err_all:
  assumes "\<And>x. x \<in> set xs \<Longrightarrow> f (g x) = Inr x"
  shows "map_err f (map g xs) = Inr xs"
  using assms by (induction xs) simp_all

text \<open>
  Claim C6. Saving a list of valid records and loading the file again gives the same
  records, field for field, in the same order.
\<close>

theorem save_load_roundtrip:
  assumes "\<forall>s \<in> set specs. valid_spec s"
  shows "load_database rt filepath (save_database specs filepath fs) = Inr specs"
proof -
  have "load_database rt filepath (save_database specs filepath fs) =
      map_err (ShaftSpec_init rt) (map model_dump_json specs)"
    by (simp add: load_database_def save_database_def)
  also have "\<dots> = Inr specs"
    using assms by (intro map_err_all init_model_dump) simp
  finally show ?thesis .
qed

lemma valid_examples: "valid_spec spec_hzrdus" "valid_spec spec_ventus" "valid_spec spec_kbs"
  by (simp_all add: valid_spec_def spec_hzrdus_def spec_ventus_def spec_kbs_def strip_def
      is_space_def float_le_def)

theorem save_load_roundtrip_witness:
  "\<forall>rt. (\<forall>s \<in> set [spec_hzrdus, spec_ventus, spec_kbs]. valid_spec s)
     \<and> load_database rt ''shaft_database.json''
         (save_database [spec_hzrdus, spec_ventus, spec_kbs] ''shaft_database.json'' Map.empty)
       = Inr [spec_hzrdus, spec_ventus, spec_kbs]"
proof
  fix rt
  have h: "\<forall>s \<in> set [spec_hzrdus, spec_ventus, spec_kbs]. valid_spec s"
    by (simp add: valid_examples)
  from save_load_roundtrip[OF h] h
  show "(\<forall>s \<in> set [spec_hzrdus, spec_ventus, spec_kbs]. valid_spec s)
     \<and> load_database rt ''shaft_database.json''
         (save_database [spec_hzrdus, spec_ventus, spec_kbs] ''shaft_database.json'' Map.empty)
       = Inr [spec_hzrdus, spec_ventus, spec_kbs]"
    by blast
qed

text \<open>A file that does not exist loads as the empty list. A record whose manufacturer is
  the empty string, which the constructor lets through for a manufacturer of spaces, is
  saved but refused when the file is loaded.\<close>

lemma load_database_missing: "load_database rt filepath Map.empty = Inr []"
  by (simp add: load_database_def)

lemma load_blank_manufacturer:
  "load_database rt filepath
     (save_database [spec_kbs\<lparr>manufacturer := []\<rparr>] filepath fs)
   = Inl (ValidationError [''manufacturer''])"
  by (simp add: load_database_def save_database_def model_dump_json_def init_simps
      opt_float_def opt_enum_def spec_kbs_def)


end
